theory Spec2Isabelle
  imports Main
begin

section \<open>Model\<close>

subsection \<open>The webview's RPC client (RpcClient.ts)\<close>

text \<open>
  \<^verbatim>\<open>messageId\<close> is a JavaScript number, an IEEE double. Integers are exact up to
  \<open>2 ^ 53\<close>; at \<open>2 ^ 53\<close> the increment \<^verbatim>\<open>++this.messageId\<close> rounds back to \<open>2 ^ 53\<close>,
  so the counter stops there.
\<close>

definition js_incr :: "nat \<Rightarrow> nat" where
  "js_incr n = (if n < 2 ^ 53 then n + 1 else n)"

text \<open>
  A Promise object created by \<^verbatim>\<open>run\<close> is identified by the number of Promises created
  before it. What a pending entry's \<^verbatim>\<open>resolve\<close> or \<^verbatim>\<open>reject\<close> was called with is a
  \<open>settle\<close>; \<^verbatim>\<open>message.result\<close> may be absent (\<open>None\<close> is \<^verbatim>\<open>undefined\<close>).
\<close>

type_synonym promise_ref = nat

datatype 'v settle = Resolve "'v option" | Reject string

text \<open>The envelope \<^verbatim>\<open>{ type: "rpc", id, method, params }\<close> given to \<^verbatim>\<open>vscode.postMessage\<close>.\<close>

record ('m, 'p) rpc_call =
  call_type :: string
  call_id :: nat
  call_method :: 'm
  call_params :: 'p

text \<open>
  \<^verbatim>\<open>event.data\<close> of a message the webview receives:
  \<^verbatim>\<open>{ type, method, id, result?, error? }\<close>.
\<close>

record 'v rpc_message =
  msg_type :: string
  msg_id :: nat
  msg_result :: "'v option"
  msg_error :: "string option"

text \<open>
  The client's fields \<^verbatim>\<open>messageId\<close> and \<^verbatim>\<open>pendingMessages\<close>, and what it has done to the
  world: the Promises it created, the envelopes it posted, the calls it made to
  \<^verbatim>\<open>resolve\<close> and \<^verbatim>\<open>reject\<close> (in order) and the ids it warned about.
\<close>

record ('m, 'p, 'v) RpcClient =
  messageId :: nat
  pendingMessages :: "nat \<rightharpoonup> promise_ref"
  promises :: nat
  posted :: "('m, 'p) rpc_call list"
  settled :: "(promise_ref \<times> 'v settle) list"
  warned :: "nat list"

definition RpcClient_new :: "('m, 'p, 'v) RpcClient" where
  "RpcClient_new =
     \<lparr>messageId = 0, pendingMessages = Map.empty, promises = 0,
      posted = [], settled = [], warned = []\<rparr>"

text \<open>
  \<^verbatim>\<open>run\<close>: the executor of \<^verbatim>\<open>new Promise\<close> runs at once; it takes the next id, stores
  the Promise's resolvers under it and posts the call.
\<close>

definition run :: "'m \<Rightarrow> 'p \<Rightarrow> ('m, 'p, 'v) RpcClient \<Rightarrow> promise_ref \<times> ('m, 'p, 'v) RpcClient" where
  "run meth params c =
     (let i = js_incr (messageId c); p = promises c in
      (p, c\<lparr>messageId := i,
             pendingMessages := (pendingMessages c)(i \<mapsto> p),
             promises := Suc p,
             posted := posted c @
               [\<lparr>call_type = ''rpc'', call_id = i, call_method = meth, call_params = params\<rparr>]\<rparr>))"

text \<open>\<^verbatim>\<open>if (message.error)\<close>: a string is truthy unless it is absent or empty.\<close>

fun truthy_string :: "string option \<Rightarrow> bool" where
  "truthy_string None = False"
| "truthy_string (Some s) = (s \<noteq> [])"

definition handleMessage :: "'v rpc_message \<Rightarrow> ('m, 'p, 'v) RpcClient \<Rightarrow> ('m, 'p, 'v) RpcClient" where
  "handleMessage message c =
     (if msg_type message = ''rpcResponse'' then
        (case pendingMessages c (msg_id message) of
           Some pending \<Rightarrow>
             (let c' = c\<lparr>pendingMessages := (pendingMessages c)(msg_id message := None)\<rparr> in
              (case msg_error message of
                 Some e \<Rightarrow>
                   if truthy_string (Some e)
                   then c'\<lparr>settled := settled c' @ [(pending, Reject e)]\<rparr>
                   else c'\<lparr>settled := settled c' @ [(pending, Resolve (msg_result message))]\<rparr>
               | None \<Rightarrow> c'\<lparr>settled := settled c' @ [(pending, Resolve (msg_result message))]\<rparr>))
         | None \<Rightarrow> c\<lparr>warned := warned c @ [msg_id message]\<rparr>)
      else c)"

text \<open>
  What happens to a client, one event after the other on the webview's single thread: the
  page calls \<^verbatim>\<open>run\<close>, or a message arrives from the host.
\<close>

datatype ('m, 'p, 'v) client_event = Call 'm 'p | Arrive "'v rpc_message"

fun step :: "('m, 'p, 'v) client_event \<Rightarrow> ('m, 'p, 'v) RpcClient \<Rightarrow> ('m, 'p, 'v) RpcClient" where
  "step (Call meth params) c = snd (run meth params c)"
| "step (Arrive message) c = handleMessage message c"

fun steps :: "('m, 'p, 'v) client_event list \<Rightarrow> ('m, 'p, 'v) RpcClient \<Rightarrow> ('m, 'p, 'v) RpcClient" where
  "steps [] c = c"
| "steps (e # es) c = steps es (step e c)"

fun calls_in :: "('m, 'p, 'v) client_event list \<Rightarrow> nat" where
  "calls_in [] = 0"
| "calls_in (Call meth params # es) = Suc (calls_in es)"
| "calls_in (Arrive message # es) = calls_in es"

text \<open>
  The result or error of a \<^verbatim>\<open>CallResult\<close> envelope: its error when it carries one, its
  result otherwise. The first \<^verbatim>\<open>CallResult\<close> among the events that
  carries the id \<open>i\<close>, if there is one.
\<close>

definition envelope_outcome :: "'v rpc_message \<Rightarrow> 'v settle" where
  "envelope_outcome message =
     (case msg_error message of
        Some e \<Rightarrow> if e \<noteq> [] then Reject e else Resolve (msg_result message)
      | None \<Rightarrow> Resolve (msg_result message))"

fun first_answer :: "nat \<Rightarrow> ('m, 'p, 'v) client_event list \<Rightarrow> 'v rpc_message option" where
  "first_answer i [] = None"
| "first_answer i (Call meth params # es) = first_answer i es"
| "first_answer i (Arrive message # es) =
     (if msg_type message = ''rpcResponse'' \<and> msg_id message = i then Some message
      else first_answer i es)"

text \<open>What the resolvers of Promise \<open>p\<close> were called with, in order.\<close>

definition settles_of :: "promise_ref \<Rightarrow> ('m, 'p, 'v) RpcClient \<Rightarrow> 'v settle list" where
  "settles_of p c = map snd (filter (\<lambda>e. fst e = p) (settled c))"

text \<open>
  The invariant the proofs use, of a client whose counter is still exact: the counter is
  the number of Promises created, the posted ids are \<open>1, 2, \<dots>\<close> in order, the entry
  under an id is the Promise of the call that got that id, and only Promises that exist
  have been settled.
\<close>

definition exact :: "('m, 'p, 'v) RpcClient \<Rightarrow> bool" where
  "exact c =
     (messageId c = promises c \<and>
      map call_id (posted c) = [1 ..< Suc (promises c)] \<and>
      (\<forall>i q. pendingMessages c i = Some q \<longrightarrow> i = Suc q \<and> q < promises c) \<and>
      (\<forall>e \<in> set (settled c). fst e < promises c))"
subsection \<open>JavaScript values and thrown values\<close>

text \<open>
  A thrown value is an \<^verbatim>\<open>Error\<close> instance (\<^verbatim>\<open>error instanceof Error\<close>), with its name
  and message, or some other value, kept by what \<^verbatim>\<open>String\<close> makes of it.
\<close>

datatype js_thrown = JsError string string | JsValue string

text \<open>
  \<^verbatim>\<open>error.message\<close>, which a value that is not an \<^verbatim>\<open>Error\<close> does not have, and
  \<^verbatim>\<open>String(error)\<close>.
\<close>

fun error_message :: "js_thrown \<Rightarrow> string option" where
  "error_message (JsError name msg) = Some msg"
| "error_message (JsValue v) = None"

fun String_of :: "js_thrown \<Rightarrow> string" where
  "String_of (JsError name msg) =
     (if name = [] then msg else if msg = [] then name else name @ '': '' @ msg)"
| "String_of (JsValue v) = v"

text \<open>Reading property \<open>prop\<close> of \<^verbatim>\<open>undefined\<close>.\<close>

definition undefined_property :: "string \<Rightarrow> js_thrown" where
  "undefined_property prop =
     JsError ''TypeError'' (''Cannot read properties of undefined (reading '' @ [CHR 0x27] @ prop @ [CHR 0x27] @ '')'')"

text \<open>
  The values the handlers return and compare. An object is kept by its class name only:
  \<open>Obj ''Promise''\<close> is a Promise.
\<close>

datatype js_val = Undefined | Null | Bool bool | Str string | Obj string

fun typeof :: "js_val \<Rightarrow> string" where
  "typeof Undefined = ''undefined''"
| "typeof Null = ''object''"
| "typeof (Bool b) = ''boolean''"
| "typeof (Str s) = ''string''"
| "typeof (Obj c) = ''object''"

text \<open>What string concatenation makes of a value.\<close>

fun js_to_string :: "js_val \<Rightarrow> string" where
  "js_to_string Undefined = ''undefined''"
| "js_to_string Null = ''null''"
| "js_to_string (Bool b) = (if b then ''true'' else ''false'')"
| "js_to_string (Str s) = s"
| "js_to_string (Obj c) = ''[object '' @ c @ '']''"

text \<open>
  Calling an \<^verbatim>\<open>async\<close> function returns a Promise at once, whatever its body does;
  only \<^verbatim>\<open>await\<close> gives the body's outcome.
\<close>

definition async_call :: "'a \<Rightarrow> js_val \<times> 'a" where
  "async_call body = (Obj ''Promise'', body)"

subsection \<open>The version-control adapter (GitManager)\<close>

text \<open>
  The git extension's repositories are external. Their methods are parameters of the
  model: each takes the repository's state \<open>'r\<close> and fails with a thrown value or
  succeeds, a mutating one with the new state.
\<close>

record commit =
  commit_hash :: string
  commit_parents :: "string list option"

record change =
  change_fsPath :: string
  change_gitIgnored :: bool

record 'r git_api =
  api_status :: "'r \<Rightarrow> js_thrown + 'r"
  api_getCommit :: "'r \<Rightarrow> string \<Rightarrow> js_thrown + commit"
  api_diffWithHEAD :: "'r \<Rightarrow> js_thrown + change list"
  api_add :: "'r \<Rightarrow> string list \<Rightarrow> js_thrown + 'r"
  api_indexChanges :: "'r \<Rightarrow> change list"
  api_diff :: "'r \<Rightarrow> string \<Rightarrow> js_thrown + string"
  api_commit :: "'r \<Rightarrow> string \<Rightarrow> js_thrown + 'r"
  api_diffBetween :: "'r \<Rightarrow> string \<Rightarrow> string \<Rightarrow> js_thrown + change list"
  api_diffBetweenPath :: "'r \<Rightarrow> string \<Rightarrow> string \<Rightarrow> string \<Rightarrow> js_thrown + string"
  api_reset :: "'r \<Rightarrow> string \<Rightarrow> bool \<Rightarrow> js_thrown + 'r"

text \<open>
  The extension's repository objects are shared: \<^verbatim>\<open>this.repo.sitory\<close> and an element of
  \<^verbatim>\<open>git.repositories\<close> may be the same object, and an object that has left
  \<^verbatim>\<open>git.repositories\<close> lives on for whoever still holds it. So the objects are kept in a
  store, \<open>git_objects\<close>, from references to states.
\<close>

type_synonym repo_ref = nat

text \<open>
  What \<^verbatim>\<open>vscode.extensions.getExtension('vscode.git')\<close> gives: whether the extension
  is there, and \<^verbatim>\<open>git.repositories\<close>, the repositories open now, each with its
  \<^verbatim>\<open>rootUri.fsPath\<close> and the reference of its object. \<open>git_resets\<close> keeps the arguments
  of every call made to a repository's \<^verbatim>\<open>reset\<close>, in order.
\<close>

record 'r vscode_git =
  git_extension :: bool
  git_objects :: "repo_ref \<Rightarrow> 'r"
  git_repositories :: "(string \<times> repo_ref) list"
  git_resets :: "(string \<times> bool) list"

text \<open>
  \<^verbatim>\<open>this.repo\<close> is \<^verbatim>\<open>undefined\<close> or holds, as its \<^verbatim>\<open>sitory\<close>, the object that \<^verbatim>\<open>init\<close>
  found in \<^verbatim>\<open>git.repositories\<close>; nothing assigns it again.
\<close>

record GitManager =
  gm_repo :: "repo_ref option"
  gm_workspaceRoot :: string

text \<open>
  \<^verbatim>\<open>this.repo!.sitory\<close>: a TypeError when \<^verbatim>\<open>this.repo\<close> is undefined, the object held
  otherwise, whether or not it is still among \<^verbatim>\<open>git.repositories\<close>. \<open>set_sitory\<close> is
  that object after one of its methods has changed it.
\<close>

definition sitory :: "GitManager \<Rightarrow> 'r vscode_git \<Rightarrow> js_thrown + 'r" where
  "sitory gm env =
     (case gm_repo gm of
        None \<Rightarrow> Inl (undefined_property ''sitory'')
      | Some a \<Rightarrow> Inr (git_objects env a))"

definition set_sitory :: "GitManager \<Rightarrow> 'r \<Rightarrow> 'r vscode_git \<Rightarrow> 'r vscode_git" where
  "set_sitory gm r env =
     (case gm_repo gm of
        None \<Rightarrow> env
      | Some a \<Rightarrow> env\<lparr>git_objects := (git_objects env)(a := r)\<rparr>)"

text \<open>
  \<^verbatim>\<open>checkInit\<close> is \<^verbatim>\<open>async\<close>: it never throws to its caller, it returns a Promise that
  is rejected when \<^verbatim>\<open>this.repo\<close> is undefined. Every caller drops that Promise.
\<close>

definition checkInit :: "GitManager \<Rightarrow> js_val \<times> (js_thrown + unit)" where
  "checkInit gm =
     async_call (if gm_repo gm = None
                 then Inl (JsError ''Error'' ''Git repository not initialized'')
                 else Inr ())"

text \<open>
  \<^verbatim>\<open>init\<close> binds \<^verbatim>\<open>this.repo\<close> to the first of \<^verbatim>\<open>git.repositories\<close> whose root is the
  workspace root, and returns an error message or \<open>None\<close> for \<^verbatim>\<open>undefined\<close>.
\<close>

definition init ::
  "'r git_api \<Rightarrow> GitManager \<Rightarrow> 'r vscode_git \<Rightarrow> (js_thrown + string option) \<times> GitManager \<times> 'r vscode_git" where
  "init api gm env =
     (if \<not> git_extension env then (Inr (Some ''Git extension not found''), gm, env)
      else if git_repositories env = [] then (Inr (Some ''No git repositories found''), gm, env)
      else if gm_workspaceRoot gm = [] then (Inr (Some ''No workspace folder found''), gm, env)
      else
        (case find (\<lambda>r. fst r = gm_workspaceRoot gm) (git_repositories env) of
           None \<Rightarrow> (Inr (Some ''No git repository found at workspace root''), gm, env)
         | Some (root, a) \<Rightarrow>
             (let gm' = gm\<lparr>gm_repo := Some a\<rparr> in
              (case api_status api (git_objects env a) of
                 Inl error \<Rightarrow> (Inl error, gm', env)
               | Inr r \<Rightarrow> (Inr None, gm', set_sitory gm' r env)))))"

definition getUdiffFromWorking :: "'r git_api \<Rightarrow> GitManager \<Rightarrow> 'r vscode_git \<Rightarrow> string" where
  "getUdiffFromWorking api gm env =
     (let unawaited = checkInit gm in
      (case sitory gm env of
         Inl error \<Rightarrow> ''''
       | Inr r \<Rightarrow> (case api_diff api r ''HEAD'' of Inl error \<Rightarrow> '''' | Inr d \<Rightarrow> d)))"

text \<open>
  \<^verbatim>\<open>commitLocalChanges\<close> has no \<^verbatim>\<open>try\<close>: whatever a step throws leaves the function.
  \<open>generateCommitMessage\<close> is the imported generator, a parameter.
\<close>

definition commitLocalChanges_finish ::
  "'r git_api \<Rightarrow> GitManager \<Rightarrow> nat \<Rightarrow> 'r \<Rightarrow> 'r vscode_git \<Rightarrow> (js_thrown + nat) \<times> 'r vscode_git" where
  "commitLocalChanges_finish api gm n r env =
     (case api_status api r of
        Inl error \<Rightarrow> (Inl error, set_sitory gm r env)
      | Inr r' \<Rightarrow> (Inr n, set_sitory gm r' env))"

definition commitLocalChanges ::
  "'r git_api \<Rightarrow> (string \<Rightarrow> js_thrown + string) \<Rightarrow> GitManager \<Rightarrow> 'r vscode_git
     \<Rightarrow> (js_thrown + nat) \<times> 'r vscode_git" where
  "commitLocalChanges api generateCommitMessage gm env =
     (case sitory gm env of
        Inl error \<Rightarrow> (Inl error, env)
      | Inr r0 \<Rightarrow>
     (case api_status api r0 of
        Inl error \<Rightarrow> (Inl error, env)
      | Inr r1 \<Rightarrow>
     (case api_diffWithHEAD api r1 of
        Inl error \<Rightarrow> (Inl error, set_sitory gm r1 env)
      | Inr changes \<Rightarrow>
     (let nonIgnoredChanges = filter (\<lambda>c. \<not> change_gitIgnored c) changes in
      (case api_add api r1 (map change_fsPath nonIgnoredChanges) of
        Inl error \<Rightarrow> (Inl error, set_sitory gm r1 env)
      | Inr r2 \<Rightarrow>
     (let indexChanges = api_indexChanges api r2 in
      if length indexChanges > 0 then
        (let udiffPreview = getUdiffFromWorking api gm (set_sitory gm r2 env) in
         (case generateCommitMessage udiffPreview of
            Inl error \<Rightarrow> (Inl error, set_sitory gm r2 env)
          | Inr message \<Rightarrow>
         (case api_commit api r2 (''[via melty] '' @ message) of
            Inl error \<Rightarrow> (Inl error, set_sitory gm r2 env)
          | Inr r3 \<Rightarrow> commitLocalChanges_finish api gm (length indexChanges) r3 env)))
      else commitLocalChanges_finish api gm (length indexChanges) r2 env))))))"

definition getLatestCommitHash :: "'r git_api \<Rightarrow> GitManager \<Rightarrow> 'r vscode_git \<Rightarrow> string option" where
  "getLatestCommitHash api gm env =
     (let unawaited = checkInit gm in
      (case sitory gm env of
         Inl error \<Rightarrow> None
       | Inr r \<Rightarrow>
           (case api_getCommit api r ''HEAD'' of
              Inl error \<Rightarrow> None
            | Inr latestCommit \<Rightarrow> Some (commit_hash latestCommit))))"

text \<open>
  What \<^verbatim>\<open>getLatestCommitHash\<close> resolves to, as a value: the hash, or \<^verbatim>\<open>undefined\<close>.
\<close>

definition js_of_hash :: "string option \<Rightarrow> js_val" where
  "js_of_hash latest = (case latest of None \<Rightarrow> Undefined | Some hash \<Rightarrow> Str hash)"

text \<open>
  \<^verbatim>\<open>undoLastCommit\<close> returns the error message or \<open>None\<close> for \<^verbatim>\<open>null\<close>, and the
  repositories as it leaves them. Its argument is declared a string, but it comes
  unchecked from the message's \<^verbatim>\<open>params.commitId\<close>, so it is any value, \<^verbatim>\<open>undefined\<close>
  when the field is missing. \<^verbatim>\<open>===\<close> between a string or \<^verbatim>\<open>undefined\<close> and a value is
  equality of the two values. The reset goes to \<^verbatim>\<open>git.repositories[0]\<close>, whatever
  \<^verbatim>\<open>this.repo\<close> is.
\<close>

definition undoLastCommit ::
  "'r git_api \<Rightarrow> GitManager \<Rightarrow> 'r vscode_git \<Rightarrow> js_val \<Rightarrow> string option \<times> 'r vscode_git" where
  "undoLastCommit api gm env commitId =
     (let unawaited = checkInit gm;
          isLatest = (js_of_hash (getLatestCommitHash api gm env) = commitId) in
      if \<not> isLatest then
        (Some ''The specified commit is not the latest commit. Cannot undo.'', env)
      else if \<not> git_extension env then
        (Some (''Error undoing last commit: '' @ String_of (undefined_property ''getAPI'')), env)
      else
        (case git_repositories env of
           [] \<Rightarrow>
             (Some (''Error undoing last commit: '' @ String_of (undefined_property ''repository'')), env)
         | (root, a) # rest \<Rightarrow>
             (let env' = env\<lparr>git_resets := git_resets env @ [(''HEAD~1'', True)]\<rparr> in
              (case api_reset api (git_objects env a) ''HEAD~1'' True of
                 Inl error \<Rightarrow> (Some (''Error undoing last commit: '' @ String_of error), env')
               | Inr r' \<Rightarrow> (None, env'\<lparr>git_objects := (git_objects env)(a := r')\<rparr>)))))"

text \<open>\<^verbatim>\<open>udiffs.join("\n")\<close>.\<close>

fun join_lines :: "string list \<Rightarrow> string" where
  "join_lines [] = []"
| "join_lines [x] = x"
| "join_lines (x # y # ys) = x @ [CHR 0x0A] @ join_lines (y # ys)"

text \<open>\<^verbatim>\<open>Promise.all\<close> over the per-file diffs: the first failure fails them all.\<close>

fun all_diffs :: "(change \<Rightarrow> js_thrown + string) \<Rightarrow> change list \<Rightarrow> js_thrown + string list" where
  "all_diffs f [] = Inr []"
| "all_diffs f (c # cs) =
     (case f c of
        Inl error \<Rightarrow> Inl error
      | Inr d \<Rightarrow> (case all_diffs f cs of Inl error \<Rightarrow> Inl error | Inr ds \<Rightarrow> Inr (d # ds)))"

text \<open>
  \<^verbatim>\<open>getUdiffFromCommit\<close>; its argument is \<open>None\<close> for \<^verbatim>\<open>undefined\<close>, and \<^verbatim>\<open>!commit\<close>
  also holds of the empty string. \<open>diff_target\<close> is the commit the diff is taken of:
  \<^verbatim>\<open>if (!commit) { commit = headCommit.hash; }\<close>.
\<close>

definition diff_target :: "string option \<Rightarrow> commit \<Rightarrow> string" where
  "diff_target commit_arg headCommit =
     (case commit_arg of
        None \<Rightarrow> commit_hash headCommit
      | Some c \<Rightarrow> if c = [] then commit_hash headCommit else c)"

definition getUdiffFromCommit ::
  "'r git_api \<Rightarrow> GitManager \<Rightarrow> 'r vscode_git \<Rightarrow> string option \<Rightarrow> string" where
  "getUdiffFromCommit api gm env commit_arg =
     (let unawaited = checkInit gm in
      (case sitory gm env of
         Inl error \<Rightarrow> ''''
       | Inr r \<Rightarrow>
      (case api_getCommit api r ''HEAD'' of
         Inl error \<Rightarrow> ''''
       | Inr headCommit \<Rightarrow>
      (let commit_ref = diff_target commit_arg headCommit in
       (case api_getCommit api r commit_ref of
          Inl error \<Rightarrow> ''''
        | Inr commitObj \<Rightarrow>
       (let hasOneParent = (case commit_parents commitObj of
                              None \<Rightarrow> False
                            | Some ps \<Rightarrow> length ps = 1) in
        if \<not> hasOneParent then ''''
        else
          (let baseCommit = commit_ref @ ''^'' in
           (case api_diffBetween api r baseCommit commit_ref of
              Inl error \<Rightarrow> ''''
            | Inr diff \<Rightarrow>
           (case all_diffs (\<lambda>c. api_diffBetweenPath api r baseCommit commit_ref (change_fsPath c)) diff of
              Inl error \<Rightarrow> ''''
            | Inr udiffs \<Rightarrow> join_lines udiffs)))))))))"

subsection \<open>Tasks and the notifier\<close>

text \<open>
  The \<^verbatim>\<open>Task\<close>, \<^verbatim>\<open>TaskManager\<close> and \<^verbatim>\<open>WebviewNotifier\<close> classes are used by the panel
  but are not among the sources. The definitions of this subsection follow the
  specification's data model: a conversation is an ordered, append-only sequence of
  turns by a human, the bot or an error.
\<close>

datatype joule_author = HumanJoule | BotJoule | ErrorJoule

record joule =
  joule_author :: joule_author
  joule_message :: string
  joule_partial :: bool

record task =
  task_id :: string
  task_name :: string
  task_conversation :: "joule list"

text \<open>
  Modelled from the spec: \<^verbatim>\<open>Task.respondHuman\<close> is missing; it appends a Human turn.
\<close>

definition respondHuman :: "string \<Rightarrow> task \<Rightarrow> task" where
  "respondHuman message t =
     t\<lparr>task_conversation := task_conversation t @
         [\<lparr>joule_author = HumanJoule, joule_message = message, joule_partial = False\<rparr>]\<rparr>"

text \<open>
  Modelled from the spec: \<^verbatim>\<open>Task.addErrorJoule\<close> is missing; it appends an Error turn.
\<close>

definition addErrorJoule :: "string \<Rightarrow> task \<Rightarrow> task" where
  "addErrorJoule message t =
     t\<lparr>task_conversation := task_conversation t @
         [\<lparr>joule_author = ErrorJoule, joule_message = message, joule_partial = False\<rparr>]\<rparr>"

text \<open>
  Modelled from the spec: \<^verbatim>\<open>Task.dehydrateForWire\<close> is missing; it gives a complete
  snapshot of the task, here the task's persisted fields as they are.
\<close>

definition dehydrateForWire :: "task \<Rightarrow> task" where
  "dehydrateForWire t = t"

text \<open>
  The language-model backend is external: what it produces in one bot turn is a
  parameter, the partial texts it streams and then its final text or its failure.
\<close>

datatype bot_finish = BotDone string | BotFailed js_thrown

record bot_run =
  bot_partials :: "string list"
  bot_finish :: bot_finish

text \<open>
  Modelled from the spec: \<^verbatim>\<open>Task.respondBot\<close> is missing. A streaming bot turn is the
  conversation with one more entry, the last, replaced by each partial text as it is
  produced; every such partial conversation goes to the caller's \<^verbatim>\<open>processPartial\<close>.
  The turn ends with the final entry appended to the task's conversation, or with the
  backend's failure thrown and the conversation as it was.
\<close>

fun stream_partials :: "(joule list \<Rightarrow> 'h \<Rightarrow> 'h) \<Rightarrow> joule list \<Rightarrow> string list \<Rightarrow> 'h \<Rightarrow> 'h" where
  "stream_partials processPartial conv [] h = h"
| "stream_partials processPartial conv (p # ps) h =
     stream_partials processPartial conv ps
       (processPartial (conv @ [\<lparr>joule_author = BotJoule, joule_message = p, joule_partial = True\<rparr>]) h)"

definition respondBot ::
  "bot_run \<Rightarrow> (joule list \<Rightarrow> 'h \<Rightarrow> 'h) \<Rightarrow> task \<Rightarrow> 'h \<Rightarrow> (js_thrown + task) \<times> 'h" where
  "respondBot produced processPartial t h =
     (let h' = stream_partials processPartial (task_conversation t) (bot_partials produced) h in
      (case bot_finish produced of
         BotDone final \<Rightarrow>
           (Inr (t\<lparr>task_conversation := task_conversation t @
                    [\<lparr>joule_author = BotJoule, joule_message = final, joule_partial = False\<rparr>]\<rparr>), h')
       | BotFailed error \<Rightarrow> (Inl error, h')))"

text \<open>What the host posts to the webview, and the pop-ups it shows in the editor.\<close>

datatype wire =
    UpdateStatusMessage string
  | ResetStatusMessage
  | UpdateTask task
  | RpcResult string nat js_val
  | RpcError string nat "string option"

datatype popup = InformationMessage string | ErrorMessage string

text \<open>
  The extension host as the panel sees it: the git manager and the repositories, the task
  manager's active tasks by id and what \<^verbatim>\<open>getActiveTaskId\<close> prints, and what the host
  has done: the messages posted to the webview (oldest first), the pop-ups shown and the
  error messages captured by the telemetry client.
\<close>

record 'r host =
  host_gm :: GitManager
  host_env :: "'r vscode_git"
  host_tasks :: "string \<rightharpoonup> task"
  host_activeTaskId :: string
  host_outbox :: "wire list"
  host_shown :: "popup list"
  host_captured :: "string list"

text \<open>
  Modelled from the spec: \<^verbatim>\<open>WebviewNotifier\<close> is missing; it is a push channel from the
  host to the one webview, which here is the view the panel was resolved with.
\<close>

definition sendNotification :: "wire \<Rightarrow> 'r host \<Rightarrow> 'r host" where
  "sendNotification w h = h\<lparr>host_outbox := host_outbox h @ [w]\<rparr>"

definition updateStatusMessage :: "string \<Rightarrow> 'r host \<Rightarrow> 'r host" where
  "updateStatusMessage s h = sendNotification (UpdateStatusMessage s) h"

definition resetStatusMessage :: "'r host \<Rightarrow> 'r host" where
  "resetStatusMessage h = sendNotification ResetStatusMessage h"

definition showMessage :: "popup \<Rightarrow> 'r host \<Rightarrow> 'r host" where
  "showMessage p h = h\<lparr>host_shown := host_shown h @ [p]\<rparr>"

subsection \<open>The panel's RPC handlers (HelloWorldPanel)\<close>

text \<open>
  The fields of \<^verbatim>\<open>params\<close> that the handlers modelled here read. \<^verbatim>\<open>params\<close> is of
  type \<^verbatim>\<open>any\<close>; \<^verbatim>\<open>commitId\<close> is kept as the value it is, \<^verbatim>\<open>undefined\<close> when the field is
  missing.
\<close>

record rpc_params =
  p_taskId :: string
  p_text :: string
  p_commitId :: js_val

text \<open>
  The panel's collaborators that are not modelled: the git repositories' methods, the
  bot, \<^verbatim>\<open>TaskManager.activate\<close> and \<^verbatim>\<open>TaskManager.deactivate\<close> (each gives an error
  message or none, or throws) and the handlers of the other methods.
\<close>

record 'r collaborators =
  col_git :: "'r git_api"
  col_bot :: "task \<Rightarrow> bot_run"
  col_activate :: "string \<Rightarrow> 'r host \<Rightarrow> (js_thrown + string option) \<times> 'r host"
  col_deactivate :: "string \<Rightarrow> 'r host \<Rightarrow> (js_thrown + string option) \<times> 'r host"
  col_other :: "string \<Rightarrow> rpc_params \<Rightarrow> 'r host \<Rightarrow> (js_thrown + js_val) \<times> 'r host"

text \<open>
  \<^verbatim>\<open>notifyWebviewOfChatError\<close>: when the task is not active the method goes on, after a
  warning at most, to call \<^verbatim>\<open>addErrorJoule\<close> on nothing, a TypeError.
\<close>

definition notifyWebviewOfChatError :: "string \<Rightarrow> string \<Rightarrow> 'r host \<Rightarrow> (js_thrown + unit) \<times> 'r host" where
  "notifyWebviewOfChatError taskId message h =
     (case host_tasks h taskId of
        None \<Rightarrow> (Inl (undefined_property ''addErrorJoule''), h)
      | Some t \<Rightarrow>
          (let t' = addErrorJoule message t;
               h' = h\<lparr>host_tasks := (host_tasks h)(taskId \<mapsto> t')\<rparr>
           in (Inr (), sendNotification (UpdateTask (dehydrateForWire t')) h')))"

text \<open>
  \<^verbatim>\<open>rpcGetGitConfigErrors\<close> calls the \<^verbatim>\<open>async\<close> \<^verbatim>\<open>init\<close> and does not await it. The
  call runs all the same, so the state is the one \<^verbatim>\<open>init\<close> leaves.
\<close>

definition rpcGetGitConfigErrors :: "'r collaborators \<Rightarrow> 'r host \<Rightarrow> (js_thrown + js_val) \<times> 'r host" where
  "rpcGetGitConfigErrors col h =
     (case async_call (init (col_git col) (host_gm h) (host_env h)) of
        (result, outcome, gm', env') \<Rightarrow>
          (Inr (if typeof result = ''string'' then result else Str []),
           h\<lparr>host_gm := gm', host_env := env'\<rparr>))"

definition rpcGetLatestCommit :: "'r collaborators \<Rightarrow> 'r host \<Rightarrow> (js_thrown + js_val) \<times> 'r host" where
  "rpcGetLatestCommit col h =
     (case getLatestCommitHash (col_git col) (host_gm h) (host_env h) of
        None \<Rightarrow> (Inr Undefined, h)
      | Some hash \<Rightarrow> (Inr (Str hash), h))"

text \<open>
  \<^verbatim>\<open>rpcUndoLatestCommit\<close> calls the \<^verbatim>\<open>async\<close> \<^verbatim>\<open>undoLastCommit\<close> and does not await
  it: \<^verbatim>\<open>errMessage\<close> is the Promise. The undo runs all the same.
\<close>

definition rpcUndoLatestCommit :: "'r collaborators \<Rightarrow> js_val \<Rightarrow> 'r host \<Rightarrow> (js_thrown + js_val) \<times> 'r host" where
  "rpcUndoLatestCommit col commitId h =
     (case async_call (undoLastCommit (col_git col) (host_gm h) (host_env h) commitId) of
        (errMessage, outcome, env') \<Rightarrow>
          (if errMessage = Null then
             (Inr Undefined,
              showMessage (InformationMessage ''Last commit has been undone by hard reset.'')
                (h\<lparr>host_env := env'\<rparr>))
           else
             (Inr Undefined,
              showMessage (ErrorMessage (''Failed to undo last commit: '' @ js_to_string errMessage))
                (h\<lparr>host_env := env'\<rparr>))))"

definition rpcDeactivateTask :: "'r collaborators \<Rightarrow> string \<Rightarrow> 'r host \<Rightarrow> (js_thrown + js_val) \<times> 'r host" where
  "rpcDeactivateTask col taskId h =
     (case col_deactivate col taskId h of
        (Inl error, h') \<Rightarrow> (Inl error, h')
      | (Inr errMessage, h') \<Rightarrow>
          (case errMessage of
             Some m \<Rightarrow>
               if truthy_string (Some m) then
                 (Inr (Bool False),
                  showMessage (ErrorMessage (''Failed to deactivate task '' @ taskId @ '': '' @ m)) h')
               else (Inr (Bool False), h')
           | None \<Rightarrow> (Inr (Bool False), h')))"

definition rpcActivateTask :: "'r collaborators \<Rightarrow> string \<Rightarrow> 'r host \<Rightarrow> (js_thrown + js_val) \<times> 'r host" where
  "rpcActivateTask col taskId h =
     (case col_activate col taskId h of
        (Inl error, h') \<Rightarrow> (Inl error, h')
      | (Inr errorMessage, h') \<Rightarrow>
          (case errorMessage of
             Some m \<Rightarrow>
               if truthy_string (Some m) then
                 (Inr (Bool False),
                  showMessage (ErrorMessage (''Failed to activate task '' @ taskId @ '': '' @ m)) h')
               else (Inr (Bool True), h')
           | None \<Rightarrow> (Inr (Bool True), h')))"

definition rpcChatMessage :: "'r collaborators \<Rightarrow> string \<Rightarrow> string \<Rightarrow> 'r host \<Rightarrow> (js_thrown + js_val) \<times> 'r host" where
  "rpcChatMessage col message taskId h0 =
     (let h1 = updateStatusMessage ''Starting up'' h0 in
      (case host_tasks h1 taskId of
         None \<Rightarrow>
           (Inl (JsError ''Error'' (''Tried to chat with an inactive task '' @ taskId @
                   '' (active task is '' @ host_activeTaskId h1 @ '')'')), h1)
       | Some t0 \<Rightarrow>
           (let t1 = respondHuman message t0;
                h2 = h1\<lparr>host_tasks := (host_tasks h1)(taskId \<mapsto> t1)\<rparr>;
                h3 = sendNotification (UpdateTask (dehydrateForWire t1)) h2;
                processPartial = (\<lambda>partialConversation.
                   sendNotification
                     (UpdateTask ((dehydrateForWire t1)\<lparr>task_conversation := partialConversation\<rparr>)))
            in (case respondBot (col_bot col t1) processPartial t1 h3 of
                  (Inl error, h4) \<Rightarrow> (Inl error, h4)
                | (Inr t2, h4) \<Rightarrow>
                    (let h5 = h4\<lparr>host_tasks := (host_tasks h4)(taskId \<mapsto> t2)\<rparr>;
                         h6 = sendNotification (UpdateTask (dehydrateForWire t2)) h5
                     in (Inr Undefined, resetStatusMessage h6))))))"

text \<open>The \<^verbatim>\<open>switch\<close> of \<^verbatim>\<open>handleRPCCall\<close>, in its order.\<close>

definition rpc_switch :: "'r collaborators \<Rightarrow> string \<Rightarrow> rpc_params \<Rightarrow> 'r host \<Rightarrow> (js_thrown + js_val) \<times> 'r host" where
  "rpc_switch col meth params h =
     (if meth = ''getActiveTask'' then col_other col meth params h
      else if meth = ''listMeltyFiles'' then col_other col meth params h
      else if meth = ''listWorkspaceFiles'' then col_other col meth params h
      else if meth = ''addMeltyFile'' then col_other col meth params h
      else if meth = ''dropMeltyFile'' then col_other col meth params h
      else if meth = ''undoLatestCommit'' then rpcUndoLatestCommit col (p_commitId params) h
      else if meth = ''getLatestCommit'' then rpcGetLatestCommit col h
      else if meth = ''chatMessage'' then rpcChatMessage col (p_text params) (p_taskId params) h
      else if meth = ''createTask'' then col_other col meth params h
      else if meth = ''listTaskPreviews'' then col_other col meth params h
      else if meth = ''activateTask'' then rpcActivateTask col (p_taskId params) h
      else if meth = ''deactivateTask'' then rpcDeactivateTask col (p_taskId params) h
      else if meth = ''createPullRequest'' then col_other col meth params h
      else if meth = ''deleteTask'' then col_other col meth params h
      else if meth = ''getGitConfigErrors'' then rpcGetGitConfigErrors col h
      else if meth = ''getAssistantDescription'' then col_other col meth params h
      else if meth = ''getVSCodeTheme'' then col_other col meth params h
      else (Inl (JsError ''Error'' (''Unknown RPC method: '' @ meth)), h))"

text \<open>
  \<^verbatim>\<open>handleRPCCall\<close>: the \<^verbatim>\<open>catch\<close> block shows a pop-up, reports a chat failure in
  the conversation and resets the status, captures the error and throws it again. What
  \<^verbatim>\<open>notifyWebviewOfChatError\<close> throws leaves the \<^verbatim>\<open>catch\<close> block at once.
\<close>

definition no_repository_message :: string where
  "no_repository_message =
     ''Cannot read properties of null (reading '' @ [CHR 0x27] @ ''repository'' @ [CHR 0x27] @ '')''"

definition handleRPCCall :: "'r collaborators \<Rightarrow> string \<Rightarrow> rpc_params \<Rightarrow> 'r host \<Rightarrow> (js_thrown + js_val) \<times> 'r host" where
  "handleRPCCall col meth params h =
     (case rpc_switch col meth params h of
        (Inr result, h1) \<Rightarrow> (Inr result, h1)
      | (Inl error, h1) \<Rightarrow>
          (let errorMessage = (case error of
                                 JsError name msg \<Rightarrow> msg
                               | JsValue v \<Rightarrow> String_of error);
               h2 = (if errorMessage = no_repository_message
                     then showMessage (ErrorMessage
                            (''Melty didn'' @ [CHR 0x27] @ ''t see a git repo in your root directory. Create one?'')) h1
                     else showMessage (ErrorMessage
                            (''Melty internal error: '' @ errorMessage @ ''. Please try again.'')) h1)
           in if meth = ''chatMessage'' then
                (case notifyWebviewOfChatError (p_taskId params) errorMessage h2 of
                   (Inl error', h3) \<Rightarrow> (Inl error', h3)
                 | (Inr u, h3) \<Rightarrow>
                     (let h4 = resetStatusMessage h3
                      in (Inl error, h4\<lparr>host_captured := host_captured h4 @ [errorMessage]\<rparr>)))
              else (Inl error, h2\<lparr>host_captured := host_captured h2 @ [errorMessage]\<rparr>)))"

text \<open>
  The listener of \<^verbatim>\<open>_setWebviewMessageListener\<close>, with \<^verbatim>\<open>config.DEV_MODE\<close> a parameter.
  It gives the error thrown out of the listener's Promise chain, if any, and the host.
\<close>

record incoming =
  in_type :: string
  in_id :: nat
  in_method :: string
  in_params :: rpc_params

definition onDidReceiveMessage ::
  "bool \<Rightarrow> 'r collaborators \<Rightarrow> incoming \<Rightarrow> 'r host \<Rightarrow> js_thrown option \<times> 'r host" where
  "onDidReceiveMessage DEV_MODE col message h =
     (if in_type message = ''rpc'' then
        (case handleRPCCall col (in_method message) (in_params message) h of
           (Inr result, h') \<Rightarrow>
             (None, h'\<lparr>host_outbox := host_outbox h' @
                          [RpcResult (in_method message) (in_id message) result]\<rparr>)
         | (Inl error, h') \<Rightarrow>
             if DEV_MODE then (Some error, h')
             else
               (None, h'\<lparr>host_outbox := host_outbox h' @
                            [RpcError (in_method message) (in_id message) (error_message error)]\<rparr>))
      else (None, h))"

text \<open>
  What the webview's client is given of a message the host posted: \<^verbatim>\<open>RpcClient\<close>
  listens for the messages of type \<^verbatim>\<open>rpcResponse\<close>, and \<^verbatim>\<open>handleMessage\<close> does nothing
  on a message of another type; \<^verbatim>\<open>event.data\<close> has the fields of the posted object, one
  set to \<^verbatim>\<open>undefined\<close> being absent.
\<close>

fun rpcResponse_of :: "wire \<Rightarrow> js_val rpc_message option" where
  "rpcResponse_of (RpcResult meth i result) =
     Some \<lparr>msg_type = ''rpcResponse'', msg_id = i,
           msg_result = (if result = Undefined then None else Some result), msg_error = None\<rparr>"
| "rpcResponse_of (RpcError meth i error) =
     Some \<lparr>msg_type = ''rpcResponse'', msg_id = i, msg_result = None, msg_error = error\<rparr>"
| "rpcResponse_of (UpdateStatusMessage s) = None"
| "rpcResponse_of ResetStatusMessage = None"
| "rpcResponse_of (UpdateTask t) = None"

definition deliver :: "wire \<Rightarrow> ('m, 'p, js_val) RpcClient \<Rightarrow> ('m, 'p, js_val) RpcClient" where
  "deliver w c = (case rpcResponse_of w of None \<Rightarrow> c | Some message \<Rightarrow> handleMessage message c)"
subsection \<open>Example inputs\<close>

text \<open>
  A session of the client: a call is answered, then two calls are outstanding at once and
  answered in the other order, the first of them with an error, and its response arrives a
  second time.
\<close>

definition session_before :: "(string, string, string) client_event list" where
  "session_before =
     [Call ''listMeltyFiles'' [],
      Arrive \<lparr>msg_type = ''rpcResponse'', msg_id = 1, msg_result = Some ''a.ts'', msg_error = None\<rparr>]"

definition session_after :: "(string, string, string) client_event list" where
  "session_after =
     [Call ''getLatestCommit'' [],
      Arrive \<lparr>msg_type = ''rpcResponse'', msg_id = 3, msg_result = Some ''abc123'', msg_error = None\<rparr>,
      Arrive \<lparr>msg_type = ''rpcResponse'', msg_id = 2, msg_result = None, msg_error = Some ''boom''\<rparr>,
      Arrive \<lparr>msg_type = ''rpcResponse'', msg_id = 2, msg_result = Some ''late'', msg_error = None\<rparr>]"

text \<open>A client with one call outstanding, and a response whose id no call of it has.\<close>

definition client_waiting :: "(string, string, string) RpcClient" where
  "client_waiting = steps (session_before @ [Call ''chatMessage'' ''hello'']) RpcClient_new"

definition stray :: "string rpc_message" where
  "stray = \<lparr>msg_type = ''rpcResponse'', msg_id = 7, msg_result = Some ''late'', msg_error = None\<rparr>"

text \<open>
  A repository for the examples: its state is its history, newest commit first, and
  \<^verbatim>\<open>reset("HEAD~1")\<close> drops the newest commit when there is an older one.
\<close>

definition toy_getCommit :: "commit list \<Rightarrow> string \<Rightarrow> js_thrown + commit" where
  "toy_getCommit history ref =
     (case (if ref = ''HEAD'' then (case history of [] \<Rightarrow> None | c # cs \<Rightarrow> Some c)
            else find (\<lambda>c. commit_hash c = ref) history) of
        None \<Rightarrow> Inl (JsError ''Error'' ''bad revision'')
      | Some c \<Rightarrow> Inr c)"

definition toy_reset :: "commit list \<Rightarrow> string \<Rightarrow> bool \<Rightarrow> js_thrown + commit list" where
  "toy_reset history ref hard =
     (case history of
        c # c' # cs \<Rightarrow> Inr (c' # cs)
      | _ \<Rightarrow> Inl (JsError ''Error'' ''bad revision''))"

definition toy_api :: "commit list git_api" where
  "toy_api =
     \<lparr>api_status = Inr,
      api_getCommit = toy_getCommit,
      api_diffWithHEAD = (\<lambda>history. Inr []),
      api_add = (\<lambda>history paths. Inr history),
      api_indexChanges = (\<lambda>history. []),
      api_diff = (\<lambda>history ref. Inr []),
      api_commit = (\<lambda>history message. Inr history),
      api_diffBetween = (\<lambda>history a b.
         Inr [\<lparr>change_fsPath = ''a.ts'', change_gitIgnored = False\<rparr>,
              \<lparr>change_fsPath = ''b.ts'', change_gitIgnored = False\<rparr>]),
      api_diffBetweenPath = (\<lambda>history a b path. Inr (''diff '' @ a @ '' '' @ b @ '' '' @ path)),
      api_reset = toy_reset\<rparr>"

text \<open>
  A workspace with one repository, object \<open>0\<close>, of two commits, \<open>c2\<close> on \<open>c1\<close>; one
  whose newest commit is a merge; one with no commit yet. The same repository of two
  commits open at another root than the workspace's, and closed. The manager before and
  after \<^verbatim>\<open>init\<close>.
\<close>

definition env_two :: "commit list vscode_git" where
  "env_two =
     \<lparr>git_extension = True,
      git_objects = (\<lambda>a. [])
        (0 := [\<lparr>commit_hash = ''c2'', commit_parents = Some [''c1'']\<rparr>,
               \<lparr>commit_hash = ''c1'', commit_parents = Some []\<rparr>]),
      git_repositories = [(''/work'', 0)],
      git_resets = []\<rparr>"

definition env_merge :: "commit list vscode_git" where
  "env_merge =
     \<lparr>git_extension = True,
      git_objects = (\<lambda>a. [])
        (0 := [\<lparr>commit_hash = ''m'', commit_parents = Some [''a'', ''b'']\<rparr>,
               \<lparr>commit_hash = ''a'', commit_parents = Some [''c1'']\<rparr>,
               \<lparr>commit_hash = ''b'', commit_parents = Some [''c1'']\<rparr>,
               \<lparr>commit_hash = ''c1'', commit_parents = Some []\<rparr>]),
      git_repositories = [(''/work'', 0)],
      git_resets = []\<rparr>"

definition env_empty :: "commit list vscode_git" where
  "env_empty =
     \<lparr>git_extension = True, git_objects = (\<lambda>a. []), git_repositories = [(''/work'', 0)],
      git_resets = []\<rparr>"


definition env_closed :: "commit list vscode_git" where
  "env_closed =
     \<lparr>git_extension = True,
      git_objects = (\<lambda>a. [])
        (0 := [\<lparr>commit_hash = ''c2'', commit_parents = Some [''c1'']\<rparr>,
               \<lparr>commit_hash = ''c1'', commit_parents = Some []\<rparr>]),
      git_repositories = [],
      git_resets = []\<rparr>"

definition gm_uninitialized :: GitManager where
  "gm_uninitialized = \<lparr>gm_repo = None, gm_workspaceRoot = ''/work''\<rparr>"

definition gm_bound :: GitManager where
  "gm_bound = \<lparr>gm_repo = Some 0, gm_workspaceRoot = ''/work''\<rparr>"

definition toy_generateCommitMessage :: "string \<Rightarrow> js_thrown + string" where
  "toy_generateCommitMessage udiff = Inr ''update''"

text \<open>
  A host with one active task \<open>T1\<close> whose conversation is empty, a bot turn that streams
  two partial texts and ends well, and one that fails after a partial text. The task
  manager of the examples activates and deactivates without an error to report.
\<close>

definition task_T1 :: task where
  "task_T1 = \<lparr>task_id = ''T1'', task_name = ''first task'', task_conversation = []\<rparr>"

definition host_T1 :: "commit list host" where
  "host_T1 =
     \<lparr>host_gm = gm_bound, host_env = env_two, host_tasks = [''T1'' \<mapsto> task_T1],
      host_activeTaskId = ''T1'', host_outbox = [], host_shown = [], host_captured = []\<rparr>"

definition bot_streams :: bot_run where
  "bot_streams = \<lparr>bot_partials = [''Hi'', ''Hi there''], bot_finish = BotDone ''Hi there!''\<rparr>"

definition bot_fails :: bot_run where
  "bot_fails = \<lparr>bot_partials = [''Hi''], bot_finish = BotFailed (JsError ''Error'' ''rate limited'')\<rparr>"

text \<open>
  Two more failing bot turns: one throws a string, not an \<^verbatim>\<open>Error\<close>, and one an
  \<^verbatim>\<open>Error\<close> whose message is empty.
\<close>

definition bot_throws_string :: bot_run where
  "bot_throws_string = \<lparr>bot_partials = [], bot_finish = BotFailed (JsValue ''overloaded'')\<rparr>"

definition bot_fails_silent :: bot_run where
  "bot_fails_silent = \<lparr>bot_partials = [], bot_finish = BotFailed (JsError ''Error'' [])\<rparr>"

definition toy_col :: "bot_run \<Rightarrow> commit list collaborators" where
  "toy_col produced =
     \<lparr>col_git = toy_api,
      col_bot = (\<lambda>t. produced),
      col_activate = (\<lambda>taskId h. (Inr None, h)),
      col_deactivate = (\<lambda>taskId h. (Inr None, h\<lparr>host_tasks := (host_tasks h)(taskId := None)\<rparr>)),
      col_other = (\<lambda>meth params h. (Inr Undefined, h))\<rparr>"

definition chat_hello :: incoming where
  "chat_hello =
     \<lparr>in_type = ''rpc'', in_id = 5, in_method = ''chatMessage'',
      in_params = \<lparr>p_taskId = ''T1'', p_text = ''hello'', p_commitId = Undefined\<rparr>\<rparr>"

definition deactivate_T1 :: incoming where
  "deactivate_T1 =
     \<lparr>in_type = ''rpc'', in_id = 6, in_method = ''deactivateTask'',
      in_params = \<lparr>p_taskId = ''T1'', p_text = [], p_commitId = Undefined\<rparr>\<rparr>"

text \<open>
  A webview client whose one call so far is the chat call, and that call as the host
  receives it.
\<close>

definition client_chat :: "(string, rpc_params, js_val) RpcClient" where
  "client_chat =
     snd (run ''chatMessage'' \<lparr>p_taskId = ''T1'', p_text = ''hello'', p_commitId = Undefined\<rparr>
            RpcClient_new)"

definition chat_call :: incoming where
  "chat_call =
     \<lparr>in_type = ''rpc'', in_id = 1, in_method = ''chatMessage'',
      in_params = \<lparr>p_taskId = ''T1'', p_text = ''hello'', p_commitId = Undefined\<rparr>\<rparr>"

text \<open>A host whose editor has no git extension, so that \<^verbatim>\<open>init\<close> has an error to report.\<close>

definition host_no_git :: "commit list host" where
  "host_no_git =
     \<lparr>host_gm = gm_uninitialized,
      host_env = \<lparr>git_extension = False, git_objects = (\<lambda>a. []), git_repositories = [],
                  git_resets = []\<rparr>,
      host_tasks = Map.empty, host_activeTaskId = [], host_outbox = [], host_shown = [],
      host_captured = []\<rparr>"
section \<open>Verification\<close>
subsection \<open>The RPC client\<close>

lemma js_incr_exact: "n < 2 ^ 53 \<Longrightarrow> js_incr n = Suc n"
  by (simp add: js_incr_def)

text \<open>At \<open>2 ^ 53\<close> the counter stays, and the next call takes over the id and its entry.\<close>

lemma run_at_limit_reuses_id:
  "messageId c = 2 ^ 53 \<Longrightarrow>
   messageId (snd (run meth params c)) = 2 ^ 53 \<and>
   pendingMessages (snd (run meth params c)) (2 ^ 53) = Some (promises c)"
  by (simp add: run_def js_incr_def Let_def)

lemma exact_new: "exact RpcClient_new"
  by (simp add: exact_def RpcClient_new_def)

lemma run_exact:
  assumes "exact c" and "promises c < 2 ^ 53"
  shows "exact (snd (run meth params c))" and "promises (snd (run meth params c)) = Suc (promises c)"
    and "fst (run meth params c) = promises c"
    and "messageId (snd (run meth params c)) = Suc (promises c)"
  using assms by (auto simp: exact_def run_def Let_def js_incr_def less_Suc_eq)

lemma handleMessage_exact:
  assumes "exact c"
  shows "exact (handleMessage m c)" and "promises (handleMessage m c) = promises c"
proof -
  show "promises (handleMessage m c) = promises c"
    by (simp add: handleMessage_def Let_def split: option.splits)
  show "exact (handleMessage m c)"
    using assms
    by (auto simp: exact_def handleMessage_def Let_def split: option.splits if_splits)
qed

lemma step_exact:
  assumes "exact c" and "promises c + calls_in [e] \<le> 2 ^ 53"
  shows "exact (step e c)" and "promises (step e c) = promises c + calls_in [e]"
proof -
  show "exact (step e c)"
  proof (cases e)
    case (Call meth params)
    then show ?thesis using assms run_exact(1)[of c meth params] by simp
  next
    case (Arrive m)
    then show ?thesis using assms handleMessage_exact(1) by simp
  qed
  show "promises (step e c) = promises c + calls_in [e]"
  proof (cases e)
    case (Call meth params)
    then show ?thesis using assms run_exact(2)[of c meth params] by simp
  next
    case (Arrive m)
    then show ?thesis using assms handleMessage_exact(2) by simp
  qed
qed

lemma calls_in_append: "calls_in (es @ fs) = calls_in es + calls_in fs"
  by (induction es rule: calls_in.induct) simp_all

lemma steps_append: "steps (es @ fs) c = steps fs (steps es c)"
  by (induction es arbitrary: c) simp_all

lemma steps_exact:
  "exact c \<Longrightarrow> promises c + calls_in es \<le> 2 ^ 53 \<Longrightarrow>
   exact (steps es c) \<and> promises (steps es c) = promises c + calls_in es"
proof (induction es arbitrary: c)
  case Nil
  then show ?case by simp
next
  case (Cons e es)
  have split: "calls_in (e # es) = calls_in [e] + calls_in es"
    using calls_in_append[of "[e]" es] by simp
  have b: "promises c + calls_in [e] \<le> 2 ^ 53" using Cons.prems(2) split by simp
  note s = step_exact[OF Cons.prems(1) b]
  have "promises (step e c) + calls_in es \<le> 2 ^ 53" using s(2) Cons.prems(2) split by simp
  from Cons.IH[OF s(1) this] show ?case using s(2) split by simp
qed

text \<open>A Promise that was settled and whose entry is gone stays as it is.\<close>

lemma step_settled_stays:
  assumes "exact c" and "p < promises c" and "promises c + calls_in [e] \<le> 2 ^ 53"
    and "pendingMessages c (Suc p) = None"
  shows "pendingMessages (step e c) (Suc p) = None \<and> settles_of p (step e c) = settles_of p c"
proof (cases e)
  case (Call meth params)
  have "promises c < 2 ^ 53" using assms(3) Call by simp
  then have "js_incr (messageId c) = Suc (promises c)"
    using assms(1) by (simp add: exact_def js_incr_def)
  then show ?thesis using Call assms(2,4) by (simp add: run_def Let_def settles_of_def)
next
  case (Arrive m)
  show ?thesis
  proof (cases "msg_type m = ''rpcResponse''")
    case False
    then show ?thesis using Arrive assms(4) by (simp add: handleMessage_def)
  next
    case True
    show ?thesis
    proof (cases "pendingMessages c (msg_id m)")
      case None
      then show ?thesis using Arrive True assms(4) by (simp add: handleMessage_def settles_of_def)
    next
      case (Some q)
      then have "msg_id m = Suc q" using assms(1) by (simp add: exact_def)
      then have "q \<noteq> p" using Some assms(4) by auto
      then show ?thesis using Arrive True Some assms(4)
        by (auto simp: handleMessage_def Let_def settles_of_def split: option.splits)
    qed
  qed
qed

lemma steps_settled_stays:
  "exact c \<Longrightarrow> p < promises c \<Longrightarrow> promises c + calls_in es \<le> 2 ^ 53 \<Longrightarrow>
   pendingMessages c (Suc p) = None \<Longrightarrow>
   settles_of p (steps es c) = settles_of p c"
proof (induction es arbitrary: c)
  case Nil
  then show ?case by simp
next
  case (Cons e es)
  have split: "calls_in (e # es) = calls_in [e] + calls_in es"
    using calls_in_append[of "[e]" es] by simp
  have b: "promises c + calls_in [e] \<le> 2 ^ 53" using Cons.prems(3) split by simp
  note s = step_exact[OF Cons.prems(1) b]
  note t = step_settled_stays[OF Cons.prems(1,2) b Cons.prems(4)]
  have lt: "p < promises (step e c)" using s(2) Cons.prems(2) by simp
  have bd: "promises (step e c) + calls_in es \<le> 2 ^ 53" using s(2) Cons.prems(3) split by simp
  have "settles_of p (steps es (step e c)) = settles_of p (step e c)"
    using Cons.IH[OF s(1) lt bd t[THEN conjunct1]] .
  then show ?case using t by simp
qed

text \<open>
  A pending Promise that was not settled yet is settled by the first response that
  carries its id, and by nothing else.
\<close>

lemma steps_pending_settled:
  "exact c \<Longrightarrow> p < promises c \<Longrightarrow> promises c + calls_in es \<le> 2 ^ 53 \<Longrightarrow>
   pendingMessages c (Suc p) = Some p \<Longrightarrow> settles_of p c = [] \<Longrightarrow>
   settles_of p (steps es c) =
     (case first_answer (Suc p) es of None \<Rightarrow> [] | Some r \<Rightarrow> [envelope_outcome r])"
proof (induction es arbitrary: c)
  case Nil
  then show ?case by simp
next
  case (Cons e es)
  have split: "calls_in (e # es) = calls_in [e] + calls_in es"
    using calls_in_append[of "[e]" es] by simp
  have b: "promises c + calls_in [e] \<le> 2 ^ 53" using Cons.prems(3) split by simp
  note s = step_exact[OF Cons.prems(1) b]
  have lt: "p < promises (step e c)" using s(2) Cons.prems(2) by simp
  have bd: "promises (step e c) + calls_in es \<le> 2 ^ 53" using s(2) Cons.prems(3) split by simp
  show ?case
  proof (cases e)
    case (Call meth params)
    have "promises c < 2 ^ 53" using b Call by simp
    then have "js_incr (messageId c) = Suc (promises c)"
      using Cons.prems(1) by (simp add: exact_def js_incr_def)
    then have "pendingMessages (step e c) (Suc p) = Some p" "settles_of p (step e c) = []"
      using Call Cons.prems(2,4,5) by (simp_all add: run_def Let_def settles_of_def)
    from Cons.IH[OF s(1) lt bd this] show ?thesis using Call by simp
  next
    case (Arrive m)
    show ?thesis
    proof (cases "msg_type m = ''rpcResponse'' \<and> msg_id m = Suc p")
      case True
      then have hm: "handleMessage m c =
          c\<lparr>pendingMessages := (pendingMessages c)(Suc p := None),
            settled := settled c @ [(p, envelope_outcome m)]\<rparr>"
        using Cons.prems(4)
        by (auto simp: handleMessage_def envelope_outcome_def Let_def split: option.splits)
      have gone: "pendingMessages (step e c) (Suc p) = None" using Arrive hm by simp
      have now: "settles_of p (step e c) = [envelope_outcome m]"
        using Arrive hm Cons.prems(5) by (simp add: settles_of_def)
      have "settles_of p (steps es (step e c)) = settles_of p (step e c)"
        using steps_settled_stays[OF s(1) lt bd gone] .
      then show ?thesis using Arrive True now by simp
    next
      case False
      have keep: "pendingMessages (step e c) (Suc p) = Some p \<and> settles_of p (step e c) = []"
      proof (cases "msg_type m = ''rpcResponse''")
        case False
        then show ?thesis using Arrive Cons.prems(4,5) by (simp add: handleMessage_def)
      next
        case True
        then have ne: "msg_id m \<noteq> Suc p" using \<open>\<not> (msg_type m = ''rpcResponse'' \<and> msg_id m = Suc p)\<close> by simp
        show ?thesis
        proof (cases "pendingMessages c (msg_id m)")
          case None
          then show ?thesis using Arrive True Cons.prems(4,5)
            by (simp add: handleMessage_def settles_of_def)
        next
          case (Some q)
          then have "msg_id m = Suc q" using Cons.prems(1) by (simp add: exact_def)
          then have "q \<noteq> p" using ne by simp
          then show ?thesis using Arrive True Some ne Cons.prems(4,5)
            by (auto simp: handleMessage_def Let_def settles_of_def split: option.splits)
        qed
      qed
      have "settles_of p (steps es (step e c)) =
         (case first_answer (Suc p) es of None \<Rightarrow> [] | Some r \<Rightarrow> [envelope_outcome r])"
        using Cons.IH[OF s(1) lt bd keep[THEN conjunct1] keep[THEN conjunct2]] .
      then show ?thesis using Arrive False by auto
    qed
  qed
qed

text \<open>
  Claim C1. Take any session of a fresh client, calls and arriving messages in any order,
  with fewer than \<open>2 ^ 53\<close> calls, and any call in it: \<open>before\<close> is what happened
  before the call and \<open>after\<close> what happened after it. The call posts an envelope with
  an id no other call of the session has. The resolvers of its Promise are called exactly
  once if a \<^verbatim>\<open>CallResult\<close> carrying that id arrives after the call, with the error of
  the first such envelope when it has one and with its result otherwise, and never
  if none arrives; what else arrives, and in what order, makes no difference.
\<close>

theorem run_settled_once_by_own_response:
  assumes call: "run meth params (steps before RpcClient_new) = (p, c)"
    and few: "calls_in before + calls_in after < 2 ^ 53"
  shows "last (posted c) =
           \<lparr>call_type = ''rpc'', call_id = messageId c, call_method = meth, call_params = params\<rparr> \<and>
         distinct (map call_id (posted (steps after c))) \<and>
         settles_of p (steps after c) =
           (case first_answer (messageId c) after of
              None \<Rightarrow> []
            | Some r \<Rightarrow> [envelope_outcome r])"
proof -
  let ?c0 = "steps before (RpcClient_new :: ('a, 'b, 'c) RpcClient)"
  have n0: "promises (RpcClient_new :: ('a, 'b, 'c) RpcClient) = 0" by (simp add: RpcClient_new_def)
  have "promises (RpcClient_new :: ('a, 'b, 'c) RpcClient) + calls_in before \<le> 2 ^ 53"
    using few n0 by simp
  from steps_exact[OF exact_new this] have e0: "exact ?c0" and pr0: "promises ?c0 = calls_in before"
    using n0 by simp_all
  have lt0: "promises ?c0 < 2 ^ 53" using pr0 few by simp
  have c: "c = snd (run meth params ?c0)" and p: "p = fst (run meth params ?c0)" using call by simp_all
  note r = run_exact[OF e0 lt0, of meth params]
  have ec: "exact c" using r(1) c by simp
  have pc: "promises c = Suc p" using r(2,3) c p by simp
  have idc: "messageId c = Suc p" using r(3,4) c p by simp
  have pend: "pendingMessages c (Suc p) = Some p"
    using c p idc by (simp add: run_def Let_def)
  have "\<forall>e \<in> set (settled ?c0). fst e < promises ?c0" using e0 by (simp add: exact_def)
  then have "\<forall>e \<in> set (settled ?c0). fst e \<noteq> p" using r(3) p by auto
  moreover have "settled c = settled ?c0" using c by (simp add: run_def Let_def)
  ultimately have none: "settles_of p c = []" by (simp add: settles_of_def filter_empty_conv)
  have bd: "promises c + calls_in after \<le> 2 ^ 53" using pc p r(3) pr0 few by simp
  have "settles_of p (steps after c) =
     (case first_answer (Suc p) after of None \<Rightarrow> [] | Some r \<Rightarrow> [envelope_outcome r])"
    using steps_pending_settled[OF ec _ bd pend none] pc by simp
  moreover have "last (posted c) =
      \<lparr>call_type = ''rpc'', call_id = messageId c, call_method = meth, call_params = params\<rparr>"
    using c by (simp add: run_def Let_def)
  moreover have "distinct (map call_id (posted (steps after c)))"
    using steps_exact[OF ec bd] by (simp add: exact_def)
  ultimately show ?thesis using idc by simp
qed

lemma session_call:
  "run ''chatMessage'' ''hello'' (steps session_before RpcClient_new) = (1, client_waiting)"
  by (simp add: client_waiting_def steps_append prod_eq_iff)
     (simp add: session_before_def RpcClient_new_def run_def js_incr_def handleMessage_def Let_def)

text \<open>
  The theorem on the example session: the second call, made while nothing is outstanding
  and answered after a later call was, and twice, is rejected once with the error of the
  first response that carries its id.
\<close>

theorem run_settled_once_by_own_response_witness:
  "settles_of 1 (steps (session_before @ [Call ''chatMessage'' ''hello''] @ session_after) RpcClient_new)
     = [Reject ''boom'']"
proof -
  have few: "calls_in session_before + calls_in session_after < 2 ^ 53"
    by (simp add: session_before_def session_after_def)
  have id: "messageId client_waiting = 2"
    by (simp add: client_waiting_def session_before_def RpcClient_new_def run_def js_incr_def
        handleMessage_def Let_def)
  have "settles_of 1 (steps session_after client_waiting) =
      (case first_answer (messageId client_waiting) session_after of
         None \<Rightarrow> [] | Some r \<Rightarrow> [envelope_outcome r])"
    using run_settled_once_by_own_response[OF session_call few] by (rule conjunct2[THEN conjunct2])
  also have "\<dots> = [Reject ''boom'']"
    by (simp add: id session_after_def envelope_outcome_def)
  finally show ?thesis by (simp add: client_waiting_def steps_append)
qed

lemma handleMessage_unknown:
  "msg_type m = ''rpcResponse'' \<Longrightarrow> pendingMessages c (msg_id m) = None \<Longrightarrow>
   handleMessage m c = c\<lparr>warned := warned c @ [msg_id m]\<rparr>"
  by (simp add: handleMessage_def)

lemma step_warned:
  "\<exists>w'. step e (c\<lparr>warned := w\<rparr>) = (step e c)\<lparr>warned := w'\<rparr>"
proof (cases e)
  case (Call meth params)
  then have "step e (c\<lparr>warned := w\<rparr>) = (step e c)\<lparr>warned := w\<rparr>"
    by (simp add: run_def Let_def)
  then show ?thesis ..
next
  case (Arrive m)
  show ?thesis
  proof (cases "msg_type m = ''rpcResponse''")
    case False
    then have "step e (c\<lparr>warned := w\<rparr>) = (step e c)\<lparr>warned := w\<rparr>"
      using Arrive by (simp add: handleMessage_def)
    then show ?thesis ..
  next
    case True
    show ?thesis
    proof (cases "pendingMessages c (msg_id m)")
      case None
      then have "step e (c\<lparr>warned := w\<rparr>) = (step e c)\<lparr>warned := w @ [msg_id m]\<rparr>"
        using Arrive True by (simp add: handleMessage_def)
      then show ?thesis ..
    next
      case (Some q)
      then have "step e (c\<lparr>warned := w\<rparr>) = (step e c)\<lparr>warned := w\<rparr>"
        using Arrive True by (simp add: handleMessage_def Let_def split: option.splits)
      then show ?thesis ..
    qed
  qed
qed

text \<open>The warnings logged do not change what the client does afterwards.\<close>

lemma steps_warned:
  "settled (steps es (c\<lparr>warned := w\<rparr>)) = settled (steps es c) \<and>
   pendingMessages (steps es (c\<lparr>warned := w\<rparr>)) = pendingMessages (steps es c) \<and>
   posted (steps es (c\<lparr>warned := w\<rparr>)) = posted (steps es c)"
proof (induction es arbitrary: c w)
  case Nil
  then show ?case by simp
next
  case (Cons e es)
  obtain w' where "step e (c\<lparr>warned := w\<rparr>) = (step e c)\<lparr>warned := w'\<rparr>"
    using step_warned by blast
  then show ?case using Cons.IH[where c = "step e c" and w = w'] by simp
qed

text \<open>
  Claim C2. An \<^verbatim>\<open>rpcResponse\<close> whose id has no pending entry only adds a warning: the
  client is otherwise as it was, pending entries and calls to resolvers included, and
  whatever happens afterwards (\<open>es\<close>: calls and arriving messages) settles the same
  Promises with the same outcomes, leaves the same entries and posts the same envelopes
  as it would have without that response. The handler has no branch that throws.
\<close>

theorem handleMessage_unknown_id_dropped:
  assumes "msg_type m = ''rpcResponse''" and "pendingMessages c (msg_id m) = None"
  shows "handleMessage m c = c\<lparr>warned := warned c @ [msg_id m]\<rparr> \<and>
         pendingMessages (handleMessage m c) = pendingMessages c \<and>
         settled (handleMessage m c) = settled c \<and>
         settled (steps es (handleMessage m c)) = settled (steps es c) \<and>
         pendingMessages (steps es (handleMessage m c)) = pendingMessages (steps es c) \<and>
         posted (steps es (handleMessage m c)) = posted (steps es c)"
  using handleMessage_unknown[OF assms] steps_warned by simp

lemma client_waiting_sel:
  "pendingMessages client_waiting 7 = None" "warned client_waiting = []"
  "pendingMessages client_waiting 2 = Some 1"
  by (simp_all add: client_waiting_def session_before_def RpcClient_new_def run_def js_incr_def
      handleMessage_def Let_def)

text \<open>
  The theorem on the client with call 2 outstanding and a response with id 7: one warning,
  call 2 still pending, and the session goes on as it would have.
\<close>

theorem handleMessage_unknown_id_dropped_witness:
  "warned (handleMessage stray client_waiting) = [7] \<and>
   pendingMessages (handleMessage stray client_waiting) 2 = Some 1 \<and>
   settled (steps session_after (handleMessage stray client_waiting)) =
     settled (steps session_after client_waiting)"
proof -
  have t: "msg_type stray = ''rpcResponse''" by (simp add: stray_def)
  have p: "pendingMessages client_waiting (msg_id stray) = None"
    by (simp add: client_waiting_sel stray_def)
  note inst = handleMessage_unknown_id_dropped[OF t p, of session_after]
  have "warned (handleMessage stray client_waiting) = warned client_waiting @ [msg_id stray]"
    using inst[THEN conjunct1] by simp
  then have a: "warned (handleMessage stray client_waiting) = [7]"
    by (simp add: client_waiting_sel stray_def)
  have b: "pendingMessages (handleMessage stray client_waiting) 2 = Some 1"
    using inst[THEN conjunct2, THEN conjunct1] by (simp add: client_waiting_sel)
  have c: "settled (steps session_after (handleMessage stray client_waiting)) =
     settled (steps session_after client_waiting)"
    using inst[THEN conjunct2, THEN conjunct2, THEN conjunct2, THEN conjunct1] .
  show ?thesis using a b c by (intro conjI)
qed
subsection \<open>The version-control adapter\<close>

lemma sitory_uninitialized: "sitory gm_uninitialized env = Inl (undefined_property ''sitory'')"
  by (simp add: sitory_def gm_uninitialized_def)

text \<open>
  \<^verbatim>\<open>commitLocalChanges\<close> lets through what its steps throw: the TypeError of an unbound
  manager, whatever the repositories are, and a failure of the first \<^verbatim>\<open>status\<close>.
\<close>

lemma commitLocalChanges_unbound:
  "gm_repo gm = None \<Longrightarrow>
   commitLocalChanges api generateCommitMessage gm env = (Inl (undefined_property ''sitory''), env)"
  by (simp add: commitLocalChanges_def sitory_def)

lemma commitLocalChanges_status_fails:
  "sitory gm env = Inr r \<Longrightarrow> api_status api r = Inl error \<Longrightarrow>
   commitLocalChanges api generateCommitMessage gm env = (Inl error, env)"
  by (simp add: commitLocalChanges_def)

text \<open>
  Claim C5. The claim fails on the code: \<^verbatim>\<open>commitLocalChanges\<close> called before
  \<^verbatim>\<open>init\<close> has bound a repository throws the TypeError of reading \<^verbatim>\<open>sitory\<close> of
  \<^verbatim>\<open>undefined\<close>, where its siblings \<^verbatim>\<open>getLatestCommitHash\<close> and
  \<^verbatim>\<open>getUdiffFromWorking\<close> catch it and return \<^verbatim>\<open>undefined\<close> and the empty string.
\<close>

theorem commitLocalChanges_throws_before_init:
  "commitLocalChanges toy_api toy_generateCommitMessage gm_uninitialized env_two =
     (Inl (JsError ''TypeError'' (''Cannot read properties of undefined (reading '' @ [CHR 0x27] @ ''sitory'' @ [CHR 0x27] @ '')'')), env_two) \<and>
   getLatestCommitHash toy_api gm_uninitialized env_two = None \<and>
   getUdiffFromWorking toy_api gm_uninitialized env_two = []"
  by (simp add: commitLocalChanges_def getLatestCommitHash_def getUdiffFromWorking_def
      sitory_uninitialized undefined_property_def)






lemma undoLastCommit_reset_made:
  "js_of_hash (getLatestCommitHash api gm env) = commitId \<Longrightarrow> git_extension env \<Longrightarrow>
   git_repositories env = (root, a) # rest \<Longrightarrow>
   api_reset api (git_objects env a) ''HEAD~1'' True = Inr r' \<Longrightarrow>
   undoLastCommit api gm env commitId =
     (None, env\<lparr>git_resets := git_resets env @ [(''HEAD~1'', True)],
                 git_objects := (git_objects env)(a := r')\<rparr>)"
  by (simp add: undoLastCommit_def Let_def)

text \<open>
  When the id passes the test and no repository is open, \<^verbatim>\<open>git.repositories[0]\<close> is
  \<^verbatim>\<open>undefined\<close>: the TypeError of reading its \<^verbatim>\<open>repository\<close> is caught and printed in
  the message returned. So it is for a manager whose repository was closed after
  \<^verbatim>\<open>init\<close>, which still reads the latest commit from the object it holds.
\<close>

lemma undoLastCommit_no_repository_open:
  "js_of_hash (getLatestCommitHash api gm env) = commitId \<Longrightarrow> git_extension env \<Longrightarrow>
   git_repositories env = [] \<Longrightarrow>
   undoLastCommit api gm env commitId =
     (Some (''Error undoing last commit: TypeError: Cannot read properties of undefined (reading ''
            @ [CHR 0x27] @ ''repository'' @ [CHR 0x27] @ '')''), env)"
  by (simp add: undoLastCommit_def Let_def undefined_property_def)

lemma toy_api_sel:
  "api_status toy_api = Inr"
  "api_getCommit toy_api = toy_getCommit"
  "api_reset toy_api = toy_reset"
  "api_diffBetween toy_api h a b =
     Inr [\<lparr>change_fsPath = ''a.ts'', change_gitIgnored = False\<rparr>,
          \<lparr>change_fsPath = ''b.ts'', change_gitIgnored = False\<rparr>]"
  "api_diffBetweenPath toy_api h a b path = Inr (''diff '' @ a @ '' '' @ b @ '' '' @ path)"
  by (simp_all add: toy_api_def)

lemma env_two_sel:
  "git_extension env_two"
  "git_objects env_two 0 =
     [\<lparr>commit_hash = ''c2'', commit_parents = Some [''c1'']\<rparr>,
      \<lparr>commit_hash = ''c1'', commit_parents = Some []\<rparr>]"
  "git_repositories env_two = [(''/work'', 0)]"
  "git_resets env_two = []"
  by (simp_all add: env_two_def)


lemma head_two: "getLatestCommitHash toy_api gm_bound env_two = Some ''c2''"
  by (simp add: getLatestCommitHash_def sitory_def gm_bound_def env_two_def toy_api_def toy_getCommit_def)

lemma head_closed: "getLatestCommitHash toy_api gm_bound env_closed = Some ''c2''"
  by (simp add: getLatestCommitHash_def sitory_def gm_bound_def env_closed_def toy_api_def toy_getCommit_def)

lemma undoLastCommit_after_close:
  "undoLastCommit toy_api gm_bound env_closed (Str ''c2'') =
     (Some (''Error undoing last commit: TypeError: Cannot read properties of undefined (reading ''
            @ [CHR 0x27] @ ''repository'' @ [CHR 0x27] @ '')''), env_closed)"
proof -
  have head: "js_of_hash (getLatestCommitHash toy_api gm_bound env_closed) = Str ''c2''"
    by (simp add: head_closed js_of_hash_def)
  have ext: "git_extension env_closed" by (simp add: env_closed_def)
  have none: "git_repositories env_closed = []" by (simp add: env_closed_def)
  show ?thesis using head ext none by (rule undoLastCommit_no_repository_open)
qed




lemma one_parent_iff: "(case ps of None \<Rightarrow> False | Some xs \<Rightarrow> length xs = 1) = (\<exists>p. ps = Some [p])"
  by (cases ps) (auto simp: length_Suc_conv)

lemma getUdiffFromCommit_uninitialized:
  "sitory gm env = Inl e \<Longrightarrow> getUdiffFromCommit api gm env commit_arg = []"
  by (simp add: getUdiffFromCommit_def)

lemma getUdiffFromCommit_no_commits:
  "sitory gm env = Inr r \<Longrightarrow> api_getCommit api r ''HEAD'' = Inl e \<Longrightarrow>
   getUdiffFromCommit api gm env commit_arg = []"
  by (simp add: getUdiffFromCommit_def)

lemma getUdiffFromCommit_not_one_parent:
  "sitory gm env = Inr r \<Longrightarrow> api_getCommit api r ''HEAD'' = Inr headCommit \<Longrightarrow>
   api_getCommit api r (diff_target commit_arg headCommit) = Inr commitObj \<Longrightarrow>
   \<forall>p. commit_parents commitObj \<noteq> Some [p] \<Longrightarrow>
   getUdiffFromCommit api gm env commit_arg = []"
  by (simp add: getUdiffFromCommit_def Let_def one_parent_iff)

lemma getUdiffFromCommit_one_parent:
  "sitory gm env = Inr r \<Longrightarrow> api_getCommit api r ''HEAD'' = Inr headCommit \<Longrightarrow>
   target = diff_target commit_arg headCommit \<Longrightarrow>
   api_getCommit api r target = Inr commitObj \<Longrightarrow>
   commit_parents commitObj = Some [p] \<Longrightarrow>
   api_diffBetween api r (target @ ''^'') target = Inr diff \<Longrightarrow>
   all_diffs (\<lambda>c. api_diffBetweenPath api r (target @ ''^'') target (change_fsPath c)) diff = Inr udiffs \<Longrightarrow>
   getUdiffFromCommit api gm env commit_arg = join_lines udiffs"
  by (simp add: getUdiffFromCommit_def Let_def)

lemma getUdiffFromCommit_nonempty:
  assumes "getUdiffFromCommit api gm env commit_arg \<noteq> []"
  shows "\<exists>r headCommit commitObj p diff udiffs.
           sitory gm env = Inr r \<and> api_getCommit api r ''HEAD'' = Inr headCommit \<and>
           api_getCommit api r (diff_target commit_arg headCommit) = Inr commitObj \<and>
           commit_parents commitObj = Some [p] \<and>
           api_diffBetween api r (diff_target commit_arg headCommit @ ''^'')
             (diff_target commit_arg headCommit) = Inr diff \<and>
           all_diffs (\<lambda>c. api_diffBetweenPath api r (diff_target commit_arg headCommit @ ''^'')
             (diff_target commit_arg headCommit) (change_fsPath c)) diff = Inr udiffs \<and>
           getUdiffFromCommit api gm env commit_arg = join_lines udiffs"
proof -
  from assms obtain r where r: "sitory gm env = Inr r"
    by (cases "sitory gm env") (auto simp: getUdiffFromCommit_def)
  from assms r obtain headCommit where h: "api_getCommit api r ''HEAD'' = Inr headCommit"
    by (cases "api_getCommit api r ''HEAD''") (auto simp: getUdiffFromCommit_def)
  let ?t = "diff_target commit_arg headCommit"
  from assms r h obtain commitObj where c: "api_getCommit api r ?t = Inr commitObj"
    by (cases "api_getCommit api r ?t") (auto simp: getUdiffFromCommit_def Let_def)
  from assms r h c obtain p where p: "commit_parents commitObj = Some [p]"
    by (auto simp: getUdiffFromCommit_def Let_def one_parent_iff split: if_splits)
  from assms r h c p obtain diff where d: "api_diffBetween api r (?t @ ''^'') ?t = Inr diff"
    by (cases "api_diffBetween api r (?t @ ''^'') ?t") (auto simp: getUdiffFromCommit_def Let_def)
  from assms r h c p d obtain udiffs where
    u: "all_diffs (\<lambda>c. api_diffBetweenPath api r (?t @ ''^'') ?t (change_fsPath c)) diff = Inr udiffs"
    by (cases "all_diffs (\<lambda>c. api_diffBetweenPath api r (?t @ ''^'') ?t (change_fsPath c)) diff")
       (auto simp: getUdiffFromCommit_def Let_def)
  have "getUdiffFromCommit api gm env commit_arg = join_lines udiffs"
    using getUdiffFromCommit_one_parent[OF r h refl c p d u] .
  with r h c p d u show ?thesis by blast
qed

text \<open>
  Claim C7. \<^verbatim>\<open>getUdiffFromCommit\<close> returns a string in every case. It is the empty
  string when the repository has no commit yet (looking up \<^verbatim>\<open>HEAD\<close> fails) and when the
  target commit has not exactly one parent; and whenever the result is not empty, the
  target commit has exactly one parent and the result is the per-file diffs against that
  parent, joined by newlines.
\<close>

theorem getUdiffFromCommit_boundaries:
  "(sitory gm env = Inr r \<and> api_getCommit api r ''HEAD'' = Inl e \<longrightarrow>
      getUdiffFromCommit api gm env commit_arg = []) \<and>
   (sitory gm env = Inr r \<and> api_getCommit api r ''HEAD'' = Inr headCommit \<and>
    api_getCommit api r (diff_target commit_arg headCommit) = Inr commitObj \<and>
    (\<forall>p. commit_parents commitObj \<noteq> Some [p]) \<longrightarrow>
      getUdiffFromCommit api gm env commit_arg = []) \<and>
   (sitory gm env = Inr r \<and> api_getCommit api r ''HEAD'' = Inr headCommit \<and>
    api_getCommit api r (diff_target commit_arg headCommit) = Inr commitObj \<and>
    commit_parents commitObj = Some [parent] \<and>
    api_diffBetween api r (diff_target commit_arg headCommit @ ''^'')
      (diff_target commit_arg headCommit) = Inr changes \<and>
    all_diffs (\<lambda>c. api_diffBetweenPath api r (diff_target commit_arg headCommit @ ''^'')
      (diff_target commit_arg headCommit) (change_fsPath c)) changes = Inr files \<longrightarrow>
      getUdiffFromCommit api gm env commit_arg = join_lines files) \<and>
   (getUdiffFromCommit api gm env commit_arg \<noteq> [] \<longrightarrow>
      (\<exists>r headCommit commitObj p diff udiffs.
           sitory gm env = Inr r \<and> api_getCommit api r ''HEAD'' = Inr headCommit \<and>
           api_getCommit api r (diff_target commit_arg headCommit) = Inr commitObj \<and>
           commit_parents commitObj = Some [p] \<and>
           api_diffBetween api r (diff_target commit_arg headCommit @ ''^'')
             (diff_target commit_arg headCommit) = Inr diff \<and>
           all_diffs (\<lambda>c. api_diffBetweenPath api r (diff_target commit_arg headCommit @ ''^'')
             (diff_target commit_arg headCommit) (change_fsPath c)) diff = Inr udiffs \<and>
           getUdiffFromCommit api gm env commit_arg = join_lines udiffs))"
proof (intro conjI impI)
  assume "sitory gm env = Inr r \<and> api_getCommit api r ''HEAD'' = Inl e"
  then have "sitory gm env = Inr r" and "api_getCommit api r ''HEAD'' = Inl e" by simp_all
  then show "getUdiffFromCommit api gm env commit_arg = []"
    by (rule getUdiffFromCommit_no_commits)
next
  assume "sitory gm env = Inr r \<and> api_getCommit api r ''HEAD'' = Inr headCommit \<and>
    api_getCommit api r (diff_target commit_arg headCommit) = Inr commitObj \<and>
    (\<forall>p. commit_parents commitObj \<noteq> Some [p])"
  then have "sitory gm env = Inr r" and "api_getCommit api r ''HEAD'' = Inr headCommit"
    and "api_getCommit api r (diff_target commit_arg headCommit) = Inr commitObj"
    and "\<forall>p. commit_parents commitObj \<noteq> Some [p]" by simp_all
  then show "getUdiffFromCommit api gm env commit_arg = []"
    by (rule getUdiffFromCommit_not_one_parent)
next
  assume "sitory gm env = Inr r \<and> api_getCommit api r ''HEAD'' = Inr headCommit \<and>
    api_getCommit api r (diff_target commit_arg headCommit) = Inr commitObj \<and>
    commit_parents commitObj = Some [parent] \<and>
    api_diffBetween api r (diff_target commit_arg headCommit @ ''^'')
      (diff_target commit_arg headCommit) = Inr changes \<and>
    all_diffs (\<lambda>c. api_diffBetweenPath api r (diff_target commit_arg headCommit @ ''^'')
      (diff_target commit_arg headCommit) (change_fsPath c)) changes = Inr files"
  then have "sitory gm env = Inr r" and "api_getCommit api r ''HEAD'' = Inr headCommit"
    and "api_getCommit api r (diff_target commit_arg headCommit) = Inr commitObj"
    and "commit_parents commitObj = Some [parent]"
    and "api_diffBetween api r (diff_target commit_arg headCommit @ ''^'')
      (diff_target commit_arg headCommit) = Inr changes"
    and "all_diffs (\<lambda>c. api_diffBetweenPath api r (diff_target commit_arg headCommit @ ''^'')
      (diff_target commit_arg headCommit) (change_fsPath c)) changes = Inr files"
    by simp_all
  then show "getUdiffFromCommit api gm env commit_arg = join_lines files"
    by (rule getUdiffFromCommit_one_parent[OF _ _ refl])
next
  assume "getUdiffFromCommit api gm env commit_arg \<noteq> []"
  then show "\<exists>r headCommit commitObj p diff udiffs.
           sitory gm env = Inr r \<and> api_getCommit api r ''HEAD'' = Inr headCommit \<and>
           api_getCommit api r (diff_target commit_arg headCommit) = Inr commitObj \<and>
           commit_parents commitObj = Some [p] \<and>
           api_diffBetween api r (diff_target commit_arg headCommit @ ''^'')
             (diff_target commit_arg headCommit) = Inr diff \<and>
           all_diffs (\<lambda>c. api_diffBetweenPath api r (diff_target commit_arg headCommit @ ''^'')
             (diff_target commit_arg headCommit) (change_fsPath c)) diff = Inr udiffs \<and>
           getUdiffFromCommit api gm env commit_arg = join_lines udiffs"
    by (rule getUdiffFromCommit_nonempty)
qed

lemma sitory_bound:
  "sitory gm_bound env_two =
     Inr [\<lparr>commit_hash = ''c2'', commit_parents = Some [''c1'']\<rparr>,
          \<lparr>commit_hash = ''c1'', commit_parents = Some []\<rparr>]"
  "sitory gm_bound env_merge =
     Inr [\<lparr>commit_hash = ''m'', commit_parents = Some [''a'', ''b'']\<rparr>,
          \<lparr>commit_hash = ''a'', commit_parents = Some [''c1'']\<rparr>,
          \<lparr>commit_hash = ''b'', commit_parents = Some [''c1'']\<rparr>,
          \<lparr>commit_hash = ''c1'', commit_parents = Some []\<rparr>]"
  "sitory gm_bound env_empty = Inr []"
  by (simp_all add: sitory_def gm_bound_def env_two_def env_merge_def env_empty_def)

text \<open>
  The theorem on a repository with no commit, on one whose newest commit is a merge, on a
  root commit, and on a commit with one parent.
\<close>

theorem getUdiffFromCommit_boundaries_witness:
  "getUdiffFromCommit toy_api gm_bound env_empty None = [] \<and>
   getUdiffFromCommit toy_api gm_bound env_merge None = [] \<and>
   getUdiffFromCommit toy_api gm_bound env_two (Some ''c1'') = [] \<and>
   getUdiffFromCommit toy_api gm_bound env_two None =
     ''diff c2^ c2 a.ts'' @ [CHR 0x0A] @ ''diff c2^ c2 b.ts''"
proof -
  have e1: "api_getCommit toy_api [] ''HEAD'' = Inl (JsError ''Error'' ''bad revision'')"
    by (simp add: toy_api_sel toy_getCommit_def)
  have a: "getUdiffFromCommit toy_api gm_bound env_empty None = []"
    using getUdiffFromCommit_boundaries[where gm = gm_bound and env = env_empty and r = "[]"
        and api = toy_api and e = "JsError ''Error'' ''bad revision''" and commit_arg = None,
        THEN conjunct1]
      conjI[OF sitory_bound(3) e1]
    by (rule mp)
  let ?m = "\<lparr>commit_hash = ''m'', commit_parents = Some [''a'', ''b'']\<rparr>"
  let ?hm = "[?m, \<lparr>commit_hash = ''a'', commit_parents = Some [''c1'']\<rparr>,
          \<lparr>commit_hash = ''b'', commit_parents = Some [''c1'']\<rparr>,
          \<lparr>commit_hash = ''c1'', commit_parents = Some []\<rparr>]"
  have m1: "api_getCommit toy_api ?hm ''HEAD'' = Inr ?m"
    by (simp add: toy_api_sel toy_getCommit_def)
  have m2: "api_getCommit toy_api ?hm (diff_target None ?m) = Inr ?m"
    by (simp add: toy_api_sel toy_getCommit_def diff_target_def)
  have m3: "\<forall>p. commit_parents ?m \<noteq> Some [p]" by simp
  have b: "getUdiffFromCommit toy_api gm_bound env_merge None = []"
    using getUdiffFromCommit_boundaries[where gm = gm_bound and env = env_merge and r = ?hm
        and api = toy_api and commit_arg = None and headCommit = ?m and commitObj = ?m,
        THEN conjunct2, THEN conjunct1]
      conjI[OF sitory_bound(2) conjI[OF m1 conjI[OF m2 m3]]]
    by (rule mp)
  let ?c2 = "\<lparr>commit_hash = ''c2'', commit_parents = Some [''c1'']\<rparr>"
  let ?c1 = "\<lparr>commit_hash = ''c1'', commit_parents = Some []\<rparr>"
  have t1: "api_getCommit toy_api [?c2, ?c1] ''HEAD'' = Inr ?c2"
    by (simp add: toy_api_sel toy_getCommit_def)
  have t2: "api_getCommit toy_api [?c2, ?c1] (diff_target (Some ''c1'') ?c2) = Inr ?c1"
    by (simp add: toy_api_sel toy_getCommit_def diff_target_def)
  have t3: "\<forall>p. commit_parents ?c1 \<noteq> Some [p]" by simp
  have c: "getUdiffFromCommit toy_api gm_bound env_two (Some ''c1'') = []"
    using getUdiffFromCommit_boundaries[where gm = gm_bound and env = env_two and r = "[?c2, ?c1]"
        and api = toy_api and commit_arg = "Some ''c1''" and headCommit = ?c2 and commitObj = ?c1,
        THEN conjunct2, THEN conjunct1]
      conjI[OF sitory_bound(1) conjI[OF t1 conjI[OF t2 t3]]]
    by (rule mp)
  let ?changes = "[\<lparr>change_fsPath = ''a.ts'', change_gitIgnored = False\<rparr>,
                   \<lparr>change_fsPath = ''b.ts'', change_gitIgnored = False\<rparr>]"
  let ?files = "[''diff c2^ c2 a.ts'', ''diff c2^ c2 b.ts'']"
  have t4: "api_getCommit toy_api [?c2, ?c1] (diff_target None ?c2) = Inr ?c2"
    by (simp add: toy_api_sel toy_getCommit_def diff_target_def)
  have t5: "commit_parents ?c2 = Some [''c1'']" by simp
  have t6: "api_diffBetween toy_api [?c2, ?c1] (diff_target None ?c2 @ ''^'') (diff_target None ?c2)
      = Inr ?changes"
    by (simp add: toy_api_sel)
  have t7: "all_diffs (\<lambda>c. api_diffBetweenPath toy_api [?c2, ?c1] (diff_target None ?c2 @ ''^'')
      (diff_target None ?c2) (change_fsPath c)) ?changes = Inr ?files"
    by (simp add: toy_api_sel diff_target_def)
  have "getUdiffFromCommit toy_api gm_bound env_two None = join_lines ?files"
    using getUdiffFromCommit_boundaries[where gm = gm_bound and env = env_two and r = "[?c2, ?c1]"
        and api = toy_api and commit_arg = None and headCommit = ?c2 and commitObj = ?c2
        and parent = "''c1''" and changes = ?changes and files = ?files,
        THEN conjunct2, THEN conjunct2, THEN conjunct1]
      conjI[OF sitory_bound(1) conjI[OF t1 conjI[OF t4 conjI[OF t5 conjI[OF t6 t7]]]]]
    by (rule mp)
  then have d: "getUdiffFromCommit toy_api gm_bound env_two None =
     ''diff c2^ c2 a.ts'' @ [CHR 0x0A] @ ''diff c2^ c2 b.ts''"
    by simp
  show ?thesis using a b c d by (intro conjI)
qed
subsection \<open>The panel\<close>

lemma stream_partials_outbox:
  assumes pp: "\<And>pc h. pp pc h = h\<lparr>host_outbox := host_outbox h @ [UpdateTask (f pc)]\<rparr>"
  shows "stream_partials pp conv ps h =
     h\<lparr>host_outbox := host_outbox h @
         map (\<lambda>p. UpdateTask (f (conv @ [\<lparr>joule_author = BotJoule, joule_message = p, joule_partial = True\<rparr>]))) ps\<rparr>"
proof (induction ps arbitrary: h)
  case Nil
  then show ?case by simp
next
  case (Cons p ps)
  let ?pc = "conv @ [\<lparr>joule_author = BotJoule, joule_message = p, joule_partial = True\<rparr>]"
  let ?g = "\<lambda>p. UpdateTask (f (conv @ [\<lparr>joule_author = BotJoule, joule_message = p, joule_partial = True\<rparr>]))"
  have "stream_partials pp conv (p # ps) h = stream_partials pp conv ps (pp ?pc h)" by simp
  also have "\<dots> = (pp ?pc h)\<lparr>host_outbox := host_outbox (pp ?pc h) @ map ?g ps\<rparr>"
    by (rule Cons.IH)
  also have "pp ?pc h = h\<lparr>host_outbox := host_outbox h @ [UpdateTask (f ?pc)]\<rparr>" by (rule pp)
  finally show ?case by simp
qed

lemma rpcChatMessage_done:
  assumes active: "host_tasks h taskId = Some t"
    and bot: "col_bot col (respondHuman message t) = produced"
    and fin: "bot_finish produced = BotDone final"
  shows "rpcChatMessage col message taskId h =
    (Inr Undefined,
     h\<lparr>host_tasks := (host_tasks h)(taskId \<mapsto>
           (respondHuman message t)\<lparr>task_conversation := task_conversation (respondHuman message t) @
              [\<lparr>joule_author = BotJoule, joule_message = final, joule_partial = False\<rparr>]\<rparr>),
       host_outbox := host_outbox h @ [UpdateStatusMessage ''Starting up'', UpdateTask (respondHuman message t)] @
          map (\<lambda>p. UpdateTask ((respondHuman message t)\<lparr>task_conversation :=
                  task_conversation (respondHuman message t) @
                  [\<lparr>joule_author = BotJoule, joule_message = p, joule_partial = True\<rparr>]\<rparr>)) (bot_partials produced) @
          [UpdateTask ((respondHuman message t)\<lparr>task_conversation := task_conversation (respondHuman message t) @
              [\<lparr>joule_author = BotJoule, joule_message = final, joule_partial = False\<rparr>]\<rparr>),
           ResetStatusMessage]\<rparr>)"
proof -
  let ?t1 = "respondHuman message t"
  let ?pp = "\<lambda>pc. sendNotification (UpdateTask ((dehydrateForWire ?t1)\<lparr>task_conversation := pc\<rparr>))"
  have sp: "\<And>h'. stream_partials ?pp (task_conversation ?t1) (bot_partials produced) h' =
     h'\<lparr>host_outbox := host_outbox h' @
         map (\<lambda>p. UpdateTask (?t1\<lparr>task_conversation := task_conversation ?t1 @
                [\<lparr>joule_author = BotJoule, joule_message = p, joule_partial = True\<rparr>]\<rparr>))
             (bot_partials produced)\<rparr>"
    by (rule stream_partials_outbox) (simp add: sendNotification_def dehydrateForWire_def)
  show ?thesis
    using active bot fin
    by (simp add: rpcChatMessage_def Let_def updateStatusMessage_def resetStatusMessage_def
        respondBot_def sendNotification_def dehydrateForWire_def
        sp[unfolded dehydrateForWire_def])
qed


lemma rpcChatMessage_failed:
  assumes active: "host_tasks h taskId = Some t"
    and bot: "col_bot col (respondHuman message t) = produced"
    and fin: "bot_finish produced = BotFailed error"
  shows "rpcChatMessage col message taskId h =
    (Inl error,
     h\<lparr>host_tasks := (host_tasks h)(taskId \<mapsto> respondHuman message t),
       host_outbox := host_outbox h @ [UpdateStatusMessage ''Starting up'', UpdateTask (respondHuman message t)] @
          map (\<lambda>p. UpdateTask ((respondHuman message t)\<lparr>task_conversation :=
                  task_conversation (respondHuman message t) @
                  [\<lparr>joule_author = BotJoule, joule_message = p, joule_partial = True\<rparr>]\<rparr>)) (bot_partials produced)\<rparr>)"
proof -
  let ?t1 = "respondHuman message t"
  let ?pp = "\<lambda>pc. sendNotification (UpdateTask ((dehydrateForWire ?t1)\<lparr>task_conversation := pc\<rparr>))"
  have sp: "\<And>h'. stream_partials ?pp (task_conversation ?t1) (bot_partials produced) h' =
     h'\<lparr>host_outbox := host_outbox h' @
         map (\<lambda>p. UpdateTask (?t1\<lparr>task_conversation := task_conversation ?t1 @
                [\<lparr>joule_author = BotJoule, joule_message = p, joule_partial = True\<rparr>]\<rparr>))
             (bot_partials produced)\<rparr>"
    by (rule stream_partials_outbox) (simp add: sendNotification_def dehydrateForWire_def)
  show ?thesis
    using active bot fin
    by (simp add: rpcChatMessage_def Let_def updateStatusMessage_def resetStatusMessage_def
        respondBot_def sendNotification_def dehydrateForWire_def
        sp[unfolded dehydrateForWire_def])
qed

lemma rpc_switch_chatMessage:
  "rpc_switch col ''chatMessage'' params h = rpcChatMessage col (p_text params) (p_taskId params) h"
  by (simp add: rpc_switch_def)

lemma sorted_chat_lengths:
  "sorted (Suc n # map (\<lambda>p. Suc (Suc n)) ps @ [Suc (Suc n)])"
proof -
  have "sorted (map (\<lambda>p. Suc (Suc n)) ps)" by (induction ps) auto
  then show ?thesis by (auto simp: sorted_append)
qed

text \<open>
  Claim C3. A \<^verbatim>\<open>chatMessage\<close> call on an active task whose bot turn streams its partial
  texts and ends well: the host posts the status, then the task snapshots (after the
  human turn, one per partial text in the order produced, and the final one), then the
  status reset, and last the \<^verbatim>\<open>rpcResponse\<close> of the call. Each snapshot's conversation
  is at least as long as the one before, and nothing is posted after the response.
\<close>

theorem chatMessage_pushes_then_result:
  assumes rpc: "in_type message = ''rpc''" and meth: "in_method message = ''chatMessage''"
    and active: "host_tasks h (p_taskId (in_params message)) = Some t"
    and human: "t1 = respondHuman (p_text (in_params message)) t"
    and bot: "col_bot col t1 = produced"
    and fin: "bot_finish produced = BotDone final"
  shows "fst (onDidReceiveMessage DEV_MODE col message h) = None \<and>
    (\<exists>pushes.
       host_outbox (snd (onDidReceiveMessage DEV_MODE col message h)) =
         host_outbox h @ [UpdateStatusMessage ''Starting up''] @ map UpdateTask pushes @
         [ResetStatusMessage, RpcResult ''chatMessage'' (in_id message) Undefined] \<and>
       map task_conversation pushes =
         task_conversation t1 #
         map (\<lambda>p. task_conversation t1 @
                [\<lparr>joule_author = BotJoule, joule_message = p, joule_partial = True\<rparr>])
             (bot_partials produced) @
         [task_conversation t1 @
            [\<lparr>joule_author = BotJoule, joule_message = final, joule_partial = False\<rparr>]] \<and>
       sorted (map (\<lambda>s. length (task_conversation s)) pushes))"
proof -
  let ?partial = "\<lambda>p. t1\<lparr>task_conversation := task_conversation t1 @
                  [\<lparr>joule_author = BotJoule, joule_message = p, joule_partial = True\<rparr>]\<rparr>"
  let ?t2 = "t1\<lparr>task_conversation := task_conversation t1 @
              [\<lparr>joule_author = BotJoule, joule_message = final, joule_partial = False\<rparr>]\<rparr>"
  let ?pushes = "t1 # map ?partial (bot_partials produced) @ [?t2]"
  let ?h' = "h\<lparr>host_tasks := (host_tasks h)(p_taskId (in_params message) \<mapsto> ?t2),
       host_outbox := host_outbox h @ [UpdateStatusMessage ''Starting up'', UpdateTask t1] @
          map (\<lambda>p. UpdateTask (?partial p)) (bot_partials produced) @ [UpdateTask ?t2, ResetStatusMessage]\<rparr>"
  have chat: "rpcChatMessage col (p_text (in_params message)) (p_taskId (in_params message)) h =
      (Inr Undefined, ?h')"
    using rpcChatMessage_done[OF active bot[unfolded human] fin] human by simp
  have call: "handleRPCCall col ''chatMessage'' (in_params message) h = (Inr Undefined, ?h')"
    by (simp add: handleRPCCall_def rpc_switch_chatMessage chat)
  have r: "onDidReceiveMessage DEV_MODE col message h =
      (None, ?h'\<lparr>host_outbox := host_outbox ?h' @ [RpcResult ''chatMessage'' (in_id message) Undefined]\<rparr>)"
    using rpc meth call by (simp add: onDidReceiveMessage_def)
  have a: "fst (onDidReceiveMessage DEV_MODE col message h) = None" using r by simp
  have b: "host_outbox (snd (onDidReceiveMessage DEV_MODE col message h)) =
         host_outbox h @ [UpdateStatusMessage ''Starting up''] @ map UpdateTask ?pushes @
         [ResetStatusMessage, RpcResult ''chatMessage'' (in_id message) Undefined]"
    using r by (simp add: comp_def)
  have c: "map task_conversation ?pushes =
         task_conversation t1 #
         map (\<lambda>p. task_conversation t1 @
                [\<lparr>joule_author = BotJoule, joule_message = p, joule_partial = True\<rparr>])
             (bot_partials produced) @
         [task_conversation t1 @
            [\<lparr>joule_author = BotJoule, joule_message = final, joule_partial = False\<rparr>]]"
    by (simp add: comp_def)
  have "map (\<lambda>s. length (task_conversation s)) ?pushes =
      Suc (length (task_conversation t)) #
      map (\<lambda>p. Suc (Suc (length (task_conversation t)))) (bot_partials produced) @
      [Suc (Suc (length (task_conversation t)))]"
    using human by (simp add: comp_def respondHuman_def)
  then have d: "sorted (map (\<lambda>s. length (task_conversation s)) ?pushes)"
    using sorted_chat_lengths by metis
  from b c d have "\<exists>pushes.
       host_outbox (snd (onDidReceiveMessage DEV_MODE col message h)) =
         host_outbox h @ [UpdateStatusMessage ''Starting up''] @ map UpdateTask pushes @
         [ResetStatusMessage, RpcResult ''chatMessage'' (in_id message) Undefined] \<and>
       map task_conversation pushes =
         task_conversation t1 #
         map (\<lambda>p. task_conversation t1 @
                [\<lparr>joule_author = BotJoule, joule_message = p, joule_partial = True\<rparr>])
             (bot_partials produced) @
         [task_conversation t1 @
            [\<lparr>joule_author = BotJoule, joule_message = final, joule_partial = False\<rparr>]] \<and>
       sorted (map (\<lambda>s. length (task_conversation s)) pushes)"
    by (intro exI[of _ ?pushes] conjI)
  with a show ?thesis by simp
qed

lemma toy_col_sel:
  "col_git (toy_col produced) = toy_api"
  "col_bot (toy_col produced) t = produced"
  "col_activate (toy_col produced) taskId h = (Inr None, h)"
  "col_deactivate (toy_col produced) taskId h = (Inr None, h\<lparr>host_tasks := (host_tasks h)(taskId := None)\<rparr>)"
  by (simp_all add: toy_col_def)

lemma host_T1_sel:
  "host_tasks host_T1 ''T1'' = Some task_T1"
  "host_outbox host_T1 = []"
  "host_shown host_T1 = []"
  "host_captured host_T1 = []"
  "host_gm host_T1 = gm_bound"
  "host_env host_T1 = env_two"
  by (simp_all add: host_T1_def)

lemma chat_hello_sel:
  "in_type chat_hello = ''rpc''"
  "in_method chat_hello = ''chatMessage''"
  "in_id chat_hello = 5"
  "p_taskId (in_params chat_hello) = ''T1''"
  "p_text (in_params chat_hello) = ''hello''"
  by (simp_all add: chat_hello_def)

text \<open>
  The theorem on task \<open>T1\<close>, the message \<open>hello\<close> and a bot that streams two partial
  texts: the conversation lengths of what is posted are 1, 2, 2, 2 between the two status
  messages, and the response of call 5 is last.
\<close>

theorem chatMessage_pushes_then_result_witness:
  "map (\<lambda>w. case w of UpdateTask s \<Rightarrow> length (task_conversation s) | _ \<Rightarrow> 0)
     (host_outbox (snd (onDidReceiveMessage False (toy_col bot_streams) chat_hello host_T1)))
     = [0, 1, 2, 2, 2, 0, 0] \<and>
   last (host_outbox (snd (onDidReceiveMessage False (toy_col bot_streams) chat_hello host_T1)))
     = RpcResult ''chatMessage'' 5 Undefined"
proof -
  have active: "host_tasks host_T1 (p_taskId (in_params chat_hello)) = Some task_T1"
    by (simp add: chat_hello_sel host_T1_sel)
  have bot: "col_bot (toy_col bot_streams) (respondHuman (p_text (in_params chat_hello)) task_T1) = bot_streams"
    by (simp add: toy_col_sel)
  have fin: "bot_finish bot_streams = BotDone ''Hi there!''" by (simp add: bot_streams_def)
  note inst = chatMessage_pushes_then_result[OF chat_hello_sel(1) chat_hello_sel(2) active refl bot fin, of False]
  from inst[THEN conjunct2] obtain pushes where ex:
    "host_outbox (snd (onDidReceiveMessage False (toy_col bot_streams) chat_hello host_T1)) =
       host_outbox host_T1 @ [UpdateStatusMessage ''Starting up''] @ map UpdateTask pushes @
       [ResetStatusMessage, RpcResult ''chatMessage'' (in_id chat_hello) Undefined] \<and>
    map task_conversation pushes =
       task_conversation (respondHuman (p_text (in_params chat_hello)) task_T1) #
       map (\<lambda>p. task_conversation (respondHuman (p_text (in_params chat_hello)) task_T1) @
              [\<lparr>joule_author = BotJoule, joule_message = p, joule_partial = True\<rparr>])
           (bot_partials bot_streams) @
       [task_conversation (respondHuman (p_text (in_params chat_hello)) task_T1) @
          [\<lparr>joule_author = BotJoule, joule_message = ''Hi there!'', joule_partial = False\<rparr>]] \<and>
    sorted (map (\<lambda>s. length (task_conversation s)) pushes)" ..
  note p = ex[THEN conjunct1] ex[THEN conjunct2, THEN conjunct1]
  have "map (\<lambda>s. length (task_conversation s)) pushes = map length (map task_conversation pushes)"
    by (simp add: comp_def)
  also have "\<dots> = [1, 2, 2, 2]"
    by (simp add: p(2) bot_streams_def respondHuman_def task_T1_def)
  finally have l: "map (\<lambda>s. length (task_conversation s)) pushes = [1, 2, 2, 2]" .
  have "map (\<lambda>w. case w of UpdateTask s \<Rightarrow> length (task_conversation s) | _ \<Rightarrow> 0)
     (host_outbox (snd (onDidReceiveMessage False (toy_col bot_streams) chat_hello host_T1)))
     = [0] @ map (\<lambda>s. length (task_conversation s)) pushes @ [0, 0]"
    by (simp add: p(1) host_T1_sel comp_def)
  then have a: "map (\<lambda>w. case w of UpdateTask s \<Rightarrow> length (task_conversation s) | _ \<Rightarrow> 0)
     (host_outbox (snd (onDidReceiveMessage False (toy_col bot_streams) chat_hello host_T1)))
     = [0, 1, 2, 2, 2, 0, 0]" using l by simp
  have b: "last (host_outbox (snd (onDidReceiveMessage False (toy_col bot_streams) chat_hello host_T1)))
     = RpcResult ''chatMessage'' 5 Undefined"
    by (simp add: p(1) chat_hello_sel)
  show ?thesis using a b by simp
qed

lemma rpc_switch_other:
  "rpc_switch col ''deactivateTask'' params h = rpcDeactivateTask col (p_taskId params) h"
  "rpc_switch col ''activateTask'' params h = rpcActivateTask col (p_taskId params) h"
  "rpc_switch col ''undoLatestCommit'' params h = rpcUndoLatestCommit col (p_commitId params) h"
  "rpc_switch col ''getGitConfigErrors'' params h = rpcGetGitConfigErrors col h"
  by (simp_all add: rpc_switch_def)

text \<open>
  What \<^verbatim>\<open>handleRPCCall\<close> leaves when the bot turn of a \<^verbatim>\<open>chatMessage\<close> call fails.
\<close>

lemma handleRPCCall_chat_failed:
  assumes active: "host_tasks h (p_taskId params) = Some t"
    and bot: "col_bot col (respondHuman (p_text params) t) = produced"
    and fin: "bot_finish produced = BotFailed error"
    and msg: "errorMessage = (case error of JsError name m \<Rightarrow> m | JsValue v \<Rightarrow> v)"
    and t1: "t1 = respondHuman (p_text params) t"
    and early: "early = [UpdateStatusMessage ''Starting up'', UpdateTask t1] @
          map (\<lambda>p. UpdateTask (t1\<lparr>task_conversation := task_conversation t1 @
                  [\<lparr>joule_author = BotJoule, joule_message = p, joule_partial = True\<rparr>]\<rparr>))
              (bot_partials produced)"
    and pop: "pop = ErrorMessage
          (if errorMessage = no_repository_message
           then ''Melty didn'' @ [CHR 0x27] @ ''t see a git repo in your root directory. Create one?''
           else ''Melty internal error: '' @ errorMessage @ ''. Please try again.'')"
  shows "handleRPCCall col ''chatMessage'' params h =
      (Inl error,
       h\<lparr>host_shown := host_shown h @ [pop],
         host_tasks := (host_tasks h)(p_taskId params \<mapsto> addErrorJoule errorMessage t1),
         host_outbox := host_outbox h @ early @
            [UpdateTask (addErrorJoule errorMessage t1), ResetStatusMessage],
         host_captured := host_captured h @ [errorMessage]\<rparr>)"
proof -
  let ?h1 = "h\<lparr>host_tasks := (host_tasks h)(p_taskId params \<mapsto> t1),
       host_outbox := host_outbox h @ early\<rparr>"
  have sw: "rpc_switch col ''chatMessage'' params h = (Inl error, ?h1)"
    using rpcChatMessage_failed[OF active bot fin] t1 early by (simp add: rpc_switch_chatMessage)
  have em: "(case error of JsError name m \<Rightarrow> m | JsValue v \<Rightarrow> String_of error) = errorMessage"
    using msg by (cases error) simp_all
  show ?thesis
    by (cases "errorMessage = no_repository_message")
       (simp_all add: handleRPCCall_def sw em pop Let_def showMessage_def notifyWebviewOfChatError_def
          sendNotification_def resetStatusMessage_def dehydrateForWire_def)
qed

text \<open>
  What the webview's client does with the \<^verbatim>\<open>rpcResponse\<close> of a failed call: it rejects
  the call's Promise when the \<^verbatim>\<open>error\<close> field is a string that is not empty, and
  resolves it, with \<^verbatim>\<open>undefined\<close>, when the field is absent or empty.
\<close>

lemma deliver_error_rejects:
  "pendingMessages c i = Some p \<Longrightarrow> m \<noteq> [] \<Longrightarrow>
   deliver (RpcError meth i (Some m)) c =
     c\<lparr>pendingMessages := (pendingMessages c)(i := None),
       settled := settled c @ [(p, Reject m)]\<rparr>"
  by (simp add: deliver_def handleMessage_def Let_def)

lemma deliver_no_error_resolves:
  "pendingMessages c i = Some p \<Longrightarrow> \<not> truthy_string e \<Longrightarrow>
   deliver (RpcError meth i e) c =
     c\<lparr>pendingMessages := (pendingMessages c)(i := None),
       settled := settled c @ [(p, Resolve None)]\<rparr>"
  by (cases e) (simp_all add: deliver_def handleMessage_def Let_def)

text \<open>
  The listener on a \<^verbatim>\<open>chatMessage\<close> call whose bot turn fails, for any thrown value:
  the response it posts carries \<^verbatim>\<open>error.message\<close>, and with \<^verbatim>\<open>config.DEV_MODE\<close> set it
  posts none and throws the error again.
\<close>

lemma onDidReceiveMessage_chat_failed:
  assumes rpc: "in_type message = ''rpc''" and meth: "in_method message = ''chatMessage''"
    and active: "host_tasks h (p_taskId (in_params message)) = Some t"
    and bot: "col_bot col (respondHuman (p_text (in_params message)) t) = produced"
    and fin: "bot_finish produced = BotFailed error"
    and call: "handled = snd (handleRPCCall col ''chatMessage'' (in_params message) h)"
  shows "onDidReceiveMessage False col message h =
           (None, handled\<lparr>host_outbox := host_outbox handled @
                 [RpcError ''chatMessage'' (in_id message) (error_message error)]\<rparr>)"
    and "onDidReceiveMessage True col message h = (Some error, handled)"
proof -
  from handleRPCCall_chat_failed[OF active bot fin refl refl refl refl]
  obtain h' where "handleRPCCall col ''chatMessage'' (in_params message) h = (Inl error, h')" ..
  then show "onDidReceiveMessage False col message h =
           (None, handled\<lparr>host_outbox := host_outbox handled @
                 [RpcError ''chatMessage'' (in_id message) (error_message error)]\<rparr>)"
    and "onDidReceiveMessage True col message h = (Some error, handled)"
    using rpc meth call by (simp_all add: onDidReceiveMessage_def)
qed

lemma chat_call_sel:
  "in_type chat_call = ''rpc''"
  "in_method chat_call = ''chatMessage''"
  "in_id chat_call = 1"
  "p_taskId (in_params chat_call) = ''T1''"
  "p_text (in_params chat_call) = ''hello''"
  by (simp_all add: chat_call_def)

lemma client_chat_pending: "pendingMessages client_chat 1 = Some 0"
  by (simp add: client_chat_def run_def js_incr_def RpcClient_new_def Let_def)

lemma client_chat_settled: "settled client_chat = []"
  by (simp add: client_chat_def run_def js_incr_def RpcClient_new_def Let_def)

lemma chat_call_active: "host_tasks host_T1 (p_taskId (in_params chat_call)) = Some task_T1"
  by (simp add: chat_call_sel host_T1_sel)

text \<open>
  Claim C8 as stated fails in three ways. With \<^verbatim>\<open>config.DEV_MODE\<close> set, the listener
  throws the error again: the five messages posted for the call are the status, the task
  states and the status reset, none of them an \<^verbatim>\<open>rpcResponse\<close>, so the call is never
  rejected. With \<^verbatim>\<open>config.DEV_MODE\<close> off, the response carries \<^verbatim>\<open>error.message\<close>: when
  the bot fails with a thrown string the field is \<^verbatim>\<open>undefined\<close>, when it fails with an
  \<^verbatim>\<open>Error\<close> of empty message the field is the empty string, and on either response the
  client resolves the call.
\<close>

theorem chat_failure_not_rejected:
  "fst (onDidReceiveMessage True (toy_col bot_fails) chat_call host_T1) =
     Some (JsError ''Error'' ''rate limited'') \<and>
   map rpcResponse_of
     (host_outbox (snd (onDidReceiveMessage True (toy_col bot_fails) chat_call host_T1))) =
     [None, None, None, None, None] \<and>
   last (host_outbox (snd (onDidReceiveMessage False (toy_col bot_throws_string) chat_call host_T1))) =
     RpcError ''chatMessage'' 1 None \<and>
   settled (deliver (RpcError ''chatMessage'' 1 None) client_chat) = [(0, Resolve None)] \<and>
   last (host_outbox (snd (onDidReceiveMessage False (toy_col bot_fails_silent) chat_call host_T1))) =
     RpcError ''chatMessage'' 1 (Some []) \<and>
   settled (deliver (RpcError ''chatMessage'' 1 (Some [])) client_chat) = [(0, Resolve None)]"
proof -
  have bot1: "col_bot (toy_col bot_fails) (respondHuman (p_text (in_params chat_call)) task_T1) = bot_fails"
    by (simp add: toy_col_sel)
  have fin1: "bot_finish bot_fails = BotFailed (JsError ''Error'' ''rate limited'')"
    by (simp add: bot_fails_def)
  note l1 = onDidReceiveMessage_chat_failed(2)[OF chat_call_sel(1) chat_call_sel(2) chat_call_active bot1 fin1 refl]
  note h1 = handleRPCCall_chat_failed[OF chat_call_active bot1 fin1 refl refl refl refl]
  have a: "fst (onDidReceiveMessage True (toy_col bot_fails) chat_call host_T1) =
     Some (JsError ''Error'' ''rate limited'')"
    by (simp add: l1)
  have b: "map rpcResponse_of
     (host_outbox (snd (onDidReceiveMessage True (toy_col bot_fails) chat_call host_T1))) =
     [None, None, None, None, None]"
    by (simp only: l1 h1) (simp add: host_T1_sel bot_fails_def)
  have bot2: "col_bot (toy_col bot_throws_string) (respondHuman (p_text (in_params chat_call)) task_T1)
      = bot_throws_string"
    by (simp add: toy_col_sel)
  have fin2: "bot_finish bot_throws_string = BotFailed (JsValue ''overloaded'')"
    by (simp add: bot_throws_string_def)
  note l2 = onDidReceiveMessage_chat_failed(1)[OF chat_call_sel(1) chat_call_sel(2) chat_call_active bot2 fin2 refl]
  have c: "last (host_outbox (snd (onDidReceiveMessage False (toy_col bot_throws_string) chat_call host_T1))) =
     RpcError ''chatMessage'' 1 None"
    by (simp add: l2 chat_call_sel)
  have "deliver (RpcError ''chatMessage'' 1 None) client_chat =
      client_chat\<lparr>pendingMessages := (pendingMessages client_chat)(1 := None),
                  settled := settled client_chat @ [(0, Resolve None)]\<rparr>"
    using client_chat_pending by (rule deliver_no_error_resolves) simp
  then have d: "settled (deliver (RpcError ''chatMessage'' 1 None) client_chat) = [(0, Resolve None)]"
    by (simp add: client_chat_settled)
  have bot3: "col_bot (toy_col bot_fails_silent) (respondHuman (p_text (in_params chat_call)) task_T1)
      = bot_fails_silent"
    by (simp add: toy_col_sel)
  have fin3: "bot_finish bot_fails_silent = BotFailed (JsError ''Error'' [])"
    by (simp add: bot_fails_silent_def)
  note l3 = onDidReceiveMessage_chat_failed(1)[OF chat_call_sel(1) chat_call_sel(2) chat_call_active bot3 fin3 refl]
  have e: "last (host_outbox (snd (onDidReceiveMessage False (toy_col bot_fails_silent) chat_call host_T1))) =
     RpcError ''chatMessage'' 1 (Some [])"
    by (simp add: l3 chat_call_sel)
  have "deliver (RpcError ''chatMessage'' 1 (Some [])) client_chat =
      client_chat\<lparr>pendingMessages := (pendingMessages client_chat)(1 := None),
                  settled := settled client_chat @ [(0, Resolve None)]\<rparr>"
    using client_chat_pending by (rule deliver_no_error_resolves) simp
  then have f: "settled (deliver (RpcError ''chatMessage'' 1 (Some [])) client_chat) = [(0, Resolve None)]"
    by (simp add: client_chat_settled)
  show ?thesis using a b c d e f by (intro conjI)
qed

text \<open>
  Claim C8, for a failure that is an \<^verbatim>\<open>Error\<close> with a message. When the bot turn of a
  \<^verbatim>\<open>chatMessage\<close> call on an active task fails with it, the host appends an Error turn
  with the message to the task's conversation (after the Human turn), and after what it
  had posted during the turn it posts that task state and then the status reset, and
  captures the message. With \<^verbatim>\<open>config.DEV_MODE\<close> off, the listener then posts, last,
  the \<^verbatim>\<open>rpcResponse\<close> of the call with the message as its error, and the webview's
  client, where the call is pending, rejects the call's Promise with the message on
  receiving it. With \<^verbatim>\<open>config.DEV_MODE\<close> set, the listener posts no response and throws
  the error again.
\<close>

theorem chat_failure_dual_reported:
  assumes rpc: "in_type message = ''rpc''" and meth: "in_method message = ''chatMessage''"
    and active: "host_tasks h (p_taskId (in_params message)) = Some t"
    and human: "t1 = respondHuman (p_text (in_params message)) t"
    and bot: "col_bot col t1 = produced"
    and fin: "bot_finish produced = BotFailed (JsError name errorMessage)"
    and nonempty: "errorMessage \<noteq> []"
    and early: "early = [UpdateStatusMessage ''Starting up'', UpdateTask t1] @
          map (\<lambda>p. UpdateTask (t1\<lparr>task_conversation := task_conversation t1 @
                  [\<lparr>joule_author = BotJoule, joule_message = p, joule_partial = True\<rparr>]\<rparr>))
              (bot_partials produced)"
    and after: "h' = snd (onDidReceiveMessage False col message h)"
    and pending: "pendingMessages c (in_id message) = Some p"
  shows "fst (onDidReceiveMessage False col message h) = None \<and>
    (\<exists>t'. host_tasks h' (p_taskId (in_params message)) = Some t' \<and>
        task_conversation t' = task_conversation t @
          [\<lparr>joule_author = HumanJoule, joule_message = p_text (in_params message), joule_partial = False\<rparr>,
           \<lparr>joule_author = ErrorJoule, joule_message = errorMessage, joule_partial = False\<rparr>] \<and>
        host_outbox h' = host_outbox h @ early @
          [UpdateTask t', ResetStatusMessage,
           RpcError ''chatMessage'' (in_id message) (Some errorMessage)] \<and>
        host_outbox (snd (onDidReceiveMessage True col message h)) =
          host_outbox h @ early @ [UpdateTask t', ResetStatusMessage]) \<and>
    host_captured h' = host_captured h @ [errorMessage] \<and>
    deliver (last (host_outbox h')) c =
      c\<lparr>pendingMessages := (pendingMessages c)(in_id message := None),
        settled := settled c @ [(p, Reject errorMessage)]\<rparr> \<and>
    fst (onDidReceiveMessage True col message h) = Some (JsError name errorMessage)"
proof -
  let ?error = "JsError name errorMessage"
  let ?t' = "addErrorJoule errorMessage t1"
  let ?response = "RpcError ''chatMessage'' (in_id message) (Some errorMessage)"
  have bot': "col_bot col (respondHuman (p_text (in_params message)) t) = produced"
    using bot human by simp
  have msg: "errorMessage = (case ?error of JsError name m \<Rightarrow> m | JsValue v \<Rightarrow> v)" by simp
  note call = handleRPCCall_chat_failed[OF active bot' fin msg human early refl]
  note shipped = onDidReceiveMessage_chat_failed(1)[OF rpc meth active bot' fin refl]
  note dev = onDidReceiveMessage_chat_failed(2)[OF rpc meth active bot' fin refl]
  have a: "fst (onDidReceiveMessage False col message h) = None" using shipped by simp
  have b: "host_tasks h' (p_taskId (in_params message)) = Some ?t'"
    using after shipped call by simp
  have c: "task_conversation ?t' = task_conversation t @
          [\<lparr>joule_author = HumanJoule, joule_message = p_text (in_params message), joule_partial = False\<rparr>,
           \<lparr>joule_author = ErrorJoule, joule_message = errorMessage, joule_partial = False\<rparr>]"
    using human by (simp add: addErrorJoule_def respondHuman_def)
  have d: "host_outbox h' = host_outbox h @ early @ [UpdateTask ?t', ResetStatusMessage, ?response]"
    using after shipped call by simp
  have e: "host_outbox (snd (onDidReceiveMessage True col message h)) =
          host_outbox h @ early @ [UpdateTask ?t', ResetStatusMessage]"
    using dev call by simp
  have f: "host_captured h' = host_captured h @ [errorMessage]"
    using after shipped call by simp
  have "last (host_outbox h') = ?response" using d by simp
  then have g: "deliver (last (host_outbox h')) c =
      c\<lparr>pendingMessages := (pendingMessages c)(in_id message := None),
        settled := settled c @ [(p, Reject errorMessage)]\<rparr>"
    using deliver_error_rejects[OF pending nonempty] by simp
  have i: "fst (onDidReceiveMessage True col message h) = Some ?error" using dev by simp
  from b c d e have "\<exists>t'. host_tasks h' (p_taskId (in_params message)) = Some t' \<and>
        task_conversation t' = task_conversation t @
          [\<lparr>joule_author = HumanJoule, joule_message = p_text (in_params message), joule_partial = False\<rparr>,
           \<lparr>joule_author = ErrorJoule, joule_message = errorMessage, joule_partial = False\<rparr>] \<and>
        host_outbox h' = host_outbox h @ early @
          [UpdateTask t', ResetStatusMessage,
           RpcError ''chatMessage'' (in_id message) (Some errorMessage)] \<and>
        host_outbox (snd (onDidReceiveMessage True col message h)) =
          host_outbox h @ early @ [UpdateTask t', ResetStatusMessage]"
    by (intro exI[of _ ?t'] conjI)
  with a f g i show ?thesis by (intro conjI)
qed

text \<open>
  The theorem on task \<open>T1\<close>, a bot that fails with the message \<open>rate limited\<close> after one
  partial text, and the client whose call 1 it is: six messages are posted, the response
  last, and the client rejects its Promise \<open>0\<close> with the message.
\<close>

theorem chat_failure_dual_reported_witness:
  "map_option task_conversation
     (host_tasks (snd (onDidReceiveMessage False (toy_col bot_fails) chat_call host_T1)) ''T1'')
     = Some [\<lparr>joule_author = HumanJoule, joule_message = ''hello'', joule_partial = False\<rparr>,
             \<lparr>joule_author = ErrorJoule, joule_message = ''rate limited'', joule_partial = False\<rparr>] \<and>
   map rpcResponse_of
     (host_outbox (snd (onDidReceiveMessage False (toy_col bot_fails) chat_call host_T1))) =
     [None, None, None, None, None,
      Some \<lparr>msg_type = ''rpcResponse'', msg_id = 1, msg_result = None,
            msg_error = Some ''rate limited''\<rparr>] \<and>
   host_captured (snd (onDidReceiveMessage False (toy_col bot_fails) chat_call host_T1))
     = [''rate limited''] \<and>
   settled (deliver (last (host_outbox (snd (onDidReceiveMessage False (toy_col bot_fails) chat_call host_T1))))
              client_chat) = [(0, Reject ''rate limited'')]"
proof -
  let ?h' = "snd (onDidReceiveMessage False (toy_col bot_fails) chat_call host_T1)"
  have bot: "col_bot (toy_col bot_fails) (respondHuman (p_text (in_params chat_call)) task_T1) = bot_fails"
    by (simp add: toy_col_sel)
  have fin: "bot_finish bot_fails = BotFailed (JsError ''Error'' ''rate limited'')"
    by (simp add: bot_fails_def)
  have nonempty: "''rate limited'' \<noteq> []" by simp
  have pending: "pendingMessages client_chat (in_id chat_call) = Some 0"
    using client_chat_pending by (simp add: chat_call_sel)
  note inst = chat_failure_dual_reported[OF chat_call_sel(1) chat_call_sel(2) chat_call_active refl
      bot fin nonempty refl refl pending]
  from inst[THEN conjunct2, THEN conjunct1] obtain t' where ex:
    "host_tasks ?h' (p_taskId (in_params chat_call)) = Some t' \<and>
     task_conversation t' = task_conversation task_T1 @
          [\<lparr>joule_author = HumanJoule, joule_message = p_text (in_params chat_call), joule_partial = False\<rparr>,
           \<lparr>joule_author = ErrorJoule, joule_message = ''rate limited'', joule_partial = False\<rparr>] \<and>
     host_outbox ?h' = host_outbox host_T1 @
          ([UpdateStatusMessage ''Starting up'', UpdateTask (respondHuman (p_text (in_params chat_call)) task_T1)] @
           map (\<lambda>p. UpdateTask ((respondHuman (p_text (in_params chat_call)) task_T1)\<lparr>task_conversation :=
                  task_conversation (respondHuman (p_text (in_params chat_call)) task_T1) @
                  [\<lparr>joule_author = BotJoule, joule_message = p, joule_partial = True\<rparr>]\<rparr>))
              (bot_partials bot_fails)) @
          [UpdateTask t', ResetStatusMessage,
           RpcError ''chatMessage'' (in_id chat_call) (Some ''rate limited'')] \<and>
     host_outbox (snd (onDidReceiveMessage True (toy_col bot_fails) chat_call host_T1)) =
          host_outbox host_T1 @
          ([UpdateStatusMessage ''Starting up'', UpdateTask (respondHuman (p_text (in_params chat_call)) task_T1)] @
           map (\<lambda>p. UpdateTask ((respondHuman (p_text (in_params chat_call)) task_T1)\<lparr>task_conversation :=
                  task_conversation (respondHuman (p_text (in_params chat_call)) task_T1) @
                  [\<lparr>joule_author = BotJoule, joule_message = p, joule_partial = True\<rparr>]\<rparr>))
              (bot_partials bot_fails)) @
          [UpdateTask t', ResetStatusMessage]"
    by (elim exE)
  have "host_tasks ?h' ''T1'' = Some t'" using ex[THEN conjunct1] by (simp add: chat_call_sel)
  moreover have "task_conversation t' =
       [\<lparr>joule_author = HumanJoule, joule_message = ''hello'', joule_partial = False\<rparr>,
        \<lparr>joule_author = ErrorJoule, joule_message = ''rate limited'', joule_partial = False\<rparr>]"
    using ex[THEN conjunct2, THEN conjunct1] by (simp add: chat_call_sel task_T1_def)
  ultimately have a: "map_option task_conversation (host_tasks ?h' ''T1'')
     = Some [\<lparr>joule_author = HumanJoule, joule_message = ''hello'', joule_partial = False\<rparr>,
             \<lparr>joule_author = ErrorJoule, joule_message = ''rate limited'', joule_partial = False\<rparr>]"
    by simp
  have b: "map rpcResponse_of (host_outbox ?h') =
     [None, None, None, None, None,
      Some \<lparr>msg_type = ''rpcResponse'', msg_id = 1, msg_result = None,
            msg_error = Some ''rate limited''\<rparr>]"
    by (simp only: ex[THEN conjunct2, THEN conjunct2, THEN conjunct1])
       (simp add: host_T1_sel bot_fails_def chat_call_sel)
  have c: "host_captured ?h' = [''rate limited'']"
    using inst[THEN conjunct2, THEN conjunct2, THEN conjunct1] by (simp add: host_T1_sel)
  have d: "settled (deliver (last (host_outbox ?h')) client_chat) = [(0, Reject ''rate limited'')]"
    by (simp add: inst[THEN conjunct2, THEN conjunct2, THEN conjunct2, THEN conjunct1] client_chat_settled)
  show ?thesis using a b c d by (intro conjI)
qed

text \<open>
  Claim C4. The claim fails on the code: with a task manager whose \<^verbatim>\<open>deactivate\<close>
  reports no error, \<^verbatim>\<open>rpcDeactivateTask\<close> on the active task \<open>T1\<close> returns
  \<^verbatim>\<open>false\<close> and shows no error, and the \<^verbatim>\<open>rpcResponse\<close> posted for the call carries
  \<^verbatim>\<open>false\<close>; its sibling \<^verbatim>\<open>rpcActivateTask\<close> returns \<^verbatim>\<open>true\<close>.
\<close>

theorem rpcDeactivateTask_returns_false:
  "fst (col_deactivate (toy_col bot_streams) ''T1'' host_T1) = Inr None \<and>
   fst (rpcDeactivateTask (toy_col bot_streams) ''T1'' host_T1) = Inr (Bool False) \<and>
   host_shown (snd (rpcDeactivateTask (toy_col bot_streams) ''T1'' host_T1)) = [] \<and>
   host_outbox (snd (onDidReceiveMessage False (toy_col bot_streams) deactivate_T1 host_T1)) =
     [RpcResult ''deactivateTask'' 6 (Bool False)] \<and>
   fst (rpcActivateTask (toy_col bot_streams) ''T1'' host_T1) = Inr (Bool True)"
  by (simp add: rpcDeactivateTask_def rpcActivateTask_def toy_col_sel host_T1_sel
      onDidReceiveMessage_def handleRPCCall_def rpc_switch_other deactivate_T1_def)

text \<open>
  Claim C9. For every commit id and every state, \<^verbatim>\<open>rpcUndoLatestCommit\<close> shows the
  error pop-up, with the Promise printed in it, and never the success pop-up; the undo
  itself runs, with whatever outcome.
\<close>

theorem rpcUndoLatestCommit_always_reports_failure:
  "fst (rpcUndoLatestCommit col commitId h) = Inr Undefined \<and>
   host_shown (snd (rpcUndoLatestCommit col commitId h)) =
     host_shown h @ [ErrorMessage ''Failed to undo last commit: [object Promise]''] \<and>
   host_env (snd (rpcUndoLatestCommit col commitId h)) =
     snd (undoLastCommit (col_git col) (host_gm h) (host_env h) commitId)"
  by (simp add: rpcUndoLatestCommit_def async_call_def showMessage_def split: prod.splits)

text \<open>
  The theorem where the undo succeeds: \<open>c2\<close> is the latest commit, the reset is made,
  and the pop-up still reports a failure.
\<close>

theorem rpcUndoLatestCommit_always_reports_failure_witness:
  "fst (undoLastCommit toy_api gm_bound env_two (Str ''c2'')) = None \<and>
   host_shown (snd (rpcUndoLatestCommit (toy_col bot_streams) (Str ''c2'') host_T1)) =
     [ErrorMessage ''Failed to undo last commit: [object Promise]''] \<and>
   git_resets (host_env (snd (rpcUndoLatestCommit (toy_col bot_streams) (Str ''c2'') host_T1))) =
     [(''HEAD~1'', True)]"
proof -
  note inst = rpcUndoLatestCommit_always_reports_failure[of "toy_col bot_streams" "Str ''c2''" host_T1]
  have head: "js_of_hash (getLatestCommitHash toy_api gm_bound env_two) = Str ''c2''"
    by (simp add: head_two js_of_hash_def)
  have reset: "api_reset toy_api (git_objects env_two 0) ''HEAD~1'' True =
      Inr [\<lparr>commit_hash = ''c1'', commit_parents = Some []\<rparr>]"
    by (simp add: toy_api_sel env_two_sel toy_reset_def)
  have u: "undoLastCommit toy_api gm_bound env_two (Str ''c2'') =
      (None, env_two\<lparr>git_resets := git_resets env_two @ [(''HEAD~1'', True)],
                     git_objects := (git_objects env_two)
                       (0 := [\<lparr>commit_hash = ''c1'', commit_parents = Some []\<rparr>])\<rparr>)"
    using head env_two_sel(1) env_two_sel(3) reset by (rule undoLastCommit_reset_made)
  have a: "fst (undoLastCommit toy_api gm_bound env_two (Str ''c2'')) = None" using u by simp
  have b: "host_shown (snd (rpcUndoLatestCommit (toy_col bot_streams) (Str ''c2'') host_T1)) =
     [ErrorMessage ''Failed to undo last commit: [object Promise]'']"
    using inst[THEN conjunct2, THEN conjunct1] by (simp add: host_T1_sel)
  have c: "git_resets (host_env (snd (rpcUndoLatestCommit (toy_col bot_streams) (Str ''c2'') host_T1))) =
     [(''HEAD~1'', True)]"
    using inst[THEN conjunct2, THEN conjunct2] u by (simp add: host_T1_sel toy_col_sel env_two_sel)
  show ?thesis using a b c by (intro conjI)
qed

text \<open>
  Claim C10. For every state, \<^verbatim>\<open>rpcGetGitConfigErrors\<close> returns the empty string.
\<close>

theorem rpcGetGitConfigErrors_always_empty:
  "fst (rpcGetGitConfigErrors col h) = Inr (Str [])"
  by (simp add: rpcGetGitConfigErrors_def async_call_def split: prod.splits)

text \<open>
  The theorem where \<^verbatim>\<open>init\<close> has an error to report: the editor has no git extension.
\<close>

theorem rpcGetGitConfigErrors_always_empty_witness:
  "fst (init toy_api (host_gm host_no_git) (host_env host_no_git)) = Inr (Some ''Git extension not found'') \<and>
   fst (rpcGetGitConfigErrors (toy_col bot_streams) host_no_git) = Inr (Str [])"
proof -
  have "fst (init toy_api (host_gm host_no_git) (host_env host_no_git)) = Inr (Some ''Git extension not found'')"
    by (simp add: init_def host_no_git_def)
  moreover have "fst (rpcGetGitConfigErrors (toy_col bot_streams) host_no_git) = Inr (Str [])"
    by (rule rpcGetGitConfigErrors_always_empty)
  ultimately show ?thesis by (intro conjI)
qed

text \<open>\<^verbatim>\<open>rpcDeactivateTask\<close> returns \<^verbatim>\<open>true\<close> for no task manager and no state.\<close>

lemma rpcDeactivateTask_never_true:
  "fst (rpcDeactivateTask col taskId h) \<noteq> Inr (Bool True)"
  by (simp add: rpcDeactivateTask_def split: prod.splits sum.splits option.splits)


end
